theory Spec2Isabelle
  imports Main
begin

section \<open>Exceptions and results\<close>

text \<open>
  The exceptions that the modelled code can raise.  A computation that may raise
  returns \<open>py_error + 'a\<close>, with \<open>Inl\<close> for the raised exception.
  \<open>InvalidOperation\<close>, \<open>DivisionByZero\<close> and \<open>Overflow\<close> are the three signals that the
  default \<^verbatim>\<open>decimal\<close> context traps; Python's \<^verbatim>\<open>DivisionUndefined\<close> (0/0) is a subclass of
  \<^verbatim>\<open>InvalidOperation\<close> and is modelled by it.
\<close>

datatype py_error =
  InvalidOperation | DivisionByZero | Overflow | TypeError | AttributeError | IndexError
  | ValueError

definition bind_err :: "py_error + 'a \<Rightarrow> ('a \<Rightarrow> py_error + 'b) \<Rightarrow> py_error + 'b" where
  "bind_err m f = (case m of Inl e \<Rightarrow> Inl e | Inr v \<Rightarrow> f v)"

section \<open>The decimal library, default context\<close>

text \<open>
  \<^verbatim>\<open>decimal.Decimal\<close>: a finite number is sign, coefficient and exponent (value
  \<open>(-1)^sign * coefficient * 10^exponent\<close>; the sign is \<open>True\<close> for negative); the special
  values are the two infinities and quiet and signalling NaNs with a sign and a payload.
  The program never changes the context, so all arithmetic runs in the default one:
  precision 28, ROUND_HALF_EVEN, Emin = -999999, Emax = 999999, clamp = 0 and the traps
  InvalidOperation, DivisionByZero and Overflow.
\<close>

datatype decimal = Finite bool nat int | Infinity bool | QNaN bool nat | SNaN bool nat

definition prec :: nat where "prec = 28"
definition Emax :: int where "Emax = 999999"
definition Emin :: int where "Emin = - 999999"
definition Etiny :: int where "Etiny = Emin - int prec + 1"
definition Etop :: int where "Etop = Emax - int prec + 1"

text \<open>\<^verbatim>\<open>len(str(n))\<close> for a non-negative integer.\<close>

function ndigits :: "nat \<Rightarrow> nat" where
  "ndigits n = (if n < 10 then 1 else Suc (ndigits (n div 10)))"
  by pat_completeness auto
termination
  by (relation "measure id") auto

declare ndigits.simps [simp del]

text \<open>Dropping the last \<open>k\<close> digits of a coefficient, rounding half to even.\<close>

definition round_half_even :: "nat \<Rightarrow> nat \<Rightarrow> nat" where
  "round_half_even c k =
     (let p = 10 ^ k; q = c div p; r = c mod p
      in if p < 2 * r \<or> (2 * r = p \<and> odd q) then q + 1 else q)"

definition is_zero :: "decimal \<Rightarrow> bool" where
  "is_zero d = (case d of Finite s c e \<Rightarrow> c = 0 | _ \<Rightarrow> False)"

definition is_nan :: "decimal \<Rightarrow> bool" where
  "is_nan d = (case d of QNaN s p \<Rightarrow> True | SNaN s p \<Rightarrow> True | _ \<Rightarrow> False)"

definition is_snan :: "decimal \<Rightarrow> bool" where
  "is_snan d = (case d of SNaN s p \<Rightarrow> True | _ \<Rightarrow> False)"

definition is_finite :: "decimal \<Rightarrow> bool" where
  "is_finite d = (case d of Finite s c e \<Rightarrow> True | _ \<Rightarrow> False)"

text \<open>
  \<^verbatim>\<open>Decimal._fix\<close>: round a result to the context.  A zero keeps its sign and has its
  exponent clamped into \<open>[Etiny, Emax]\<close>; a non-zero coefficient with too many digits (or an
  exponent below \<open>Etiny\<close>) is rounded half-even; a result above \<open>Emax\<close> signals Overflow,
  which is trapped.  The signals Inexact, Rounded, Subnormal, Underflow and Clamped are not
  trapped and leave no trace.  A NaN payload longer than the precision is cut to its last
  28 digits.
\<close>

definition dec_fix :: "decimal \<Rightarrow> py_error + decimal" where
  "dec_fix d =
     (case d of
        Finite s c e \<Rightarrow>
          if c = 0 then Inr (Finite s 0 (min (max e Etiny) Emax))
          else
            let exp_min0 = int (ndigits c) + e - int prec in
            if Etop < exp_min0 then Inl Overflow
            else
              let exp_min = max exp_min0 Etiny in
              if e < exp_min then
                let q = round_half_even c (nat (exp_min - e));
                    coeff = (if prec < ndigits q then q div 10 else q);
                    exp_new = (if prec < ndigits q then exp_min + 1 else exp_min)
                in if Etop < exp_new then Inl Overflow else Inr (Finite s coeff exp_new)
              else Inr d
      | Infinity s \<Rightarrow> Inr d
      | QNaN s p \<Rightarrow> Inr (QNaN s (p mod 10 ^ prec))
      | SNaN s p \<Rightarrow> Inr (SNaN s (p mod 10 ^ prec)))"

text \<open>
  \<^verbatim>\<open>Decimal._check_nans\<close>: a signalling NaN operand raises InvalidOperation; otherwise the
  first quiet NaN operand is the result.  \<open>None\<close> means that neither operand is a NaN.
\<close>

definition check_nans :: "decimal \<Rightarrow> decimal \<Rightarrow> (py_error + decimal) option" where
  "check_nans x y =
     (if is_snan x \<or> is_snan y then Some (Inl InvalidOperation)
      else if is_nan x then Some (dec_fix x)
      else if is_nan y then Some (dec_fix y)
      else None)"

definition copy_negate :: "decimal \<Rightarrow> decimal" where
  "copy_negate d =
     (case d of Finite s c e \<Rightarrow> Finite (\<not> s) c e | Infinity s \<Rightarrow> Infinity (\<not> s)
      | QNaN s p \<Rightarrow> QNaN (\<not> s) p | SNaN s p \<Rightarrow> SNaN (\<not> s) p)"

text \<open>The signed coefficient of a finite number written with the (smaller) exponent \<open>e\<close>.\<close>

definition scaled :: "bool \<Rightarrow> nat \<Rightarrow> int \<Rightarrow> int \<Rightarrow> int" where
  "scaled s c ec e = (if s then - 1 else 1) * int c * 10 ^ nat (ec - e)"

text \<open>
  \<^verbatim>\<open>Decimal.__add__\<close>: the exact sum at the smaller exponent, then \<open>_fix\<close>.  A zero sum of
  two zeros is negative only when both are; a zero sum of non-zero operands is positive.
\<close>

definition dec_add :: "decimal \<Rightarrow> decimal \<Rightarrow> py_error + decimal" where
  "dec_add x y =
     (case check_nans x y of
        Some r \<Rightarrow> r
      | None \<Rightarrow>
         (case (x, y) of
            (Infinity s1, Infinity s2) \<Rightarrow> if s1 \<noteq> s2 then Inl InvalidOperation else Inr x
          | (Infinity s1, _) \<Rightarrow> Inr x
          | (_, Infinity s2) \<Rightarrow> Inr y
          | (Finite s1 c1 e1, Finite s2 c2 e2) \<Rightarrow>
              let e = min e1 e2; t = scaled s1 c1 e1 e + scaled s2 c2 e2 e
              in if t = 0 then dec_fix (Finite (s1 \<and> s2) 0 e)
                 else dec_fix (Finite (t < 0) (nat \<bar>t\<bar>) e)
          | _ \<Rightarrow> Inl InvalidOperation))"

text \<open>\<^verbatim>\<open>Decimal.__sub__\<close>: the NaN check, then \<open>x + (-y)\<close>.\<close>

definition dec_sub :: "decimal \<Rightarrow> decimal \<Rightarrow> py_error + decimal" where
  "dec_sub x y =
     (case check_nans x y of Some r \<Rightarrow> r | None \<Rightarrow> dec_add x (copy_negate y))"

text \<open>\<^verbatim>\<open>Decimal.__mul__\<close>.\<close>

definition dec_mul :: "decimal \<Rightarrow> decimal \<Rightarrow> py_error + decimal" where
  "dec_mul x y =
     (case check_nans x y of
        Some r \<Rightarrow> r
      | None \<Rightarrow>
         (case (x, y) of
            (Infinity s1, Infinity s2) \<Rightarrow> Inr (Infinity (s1 \<noteq> s2))
          | (Infinity s1, Finite s2 c2 e2) \<Rightarrow>
              if c2 = 0 then Inl InvalidOperation else Inr (Infinity (s1 \<noteq> s2))
          | (Finite s1 c1 e1, Infinity s2) \<Rightarrow>
              if c1 = 0 then Inl InvalidOperation else Inr (Infinity (s1 \<noteq> s2))
          | (Finite s1 c1 e1, Finite s2 c2 e2) \<Rightarrow>
              dec_fix (Finite (s1 \<noteq> s2) (c1 * c2) (e1 + e2))
          | _ \<Rightarrow> Inl InvalidOperation))"

text \<open>
  The loop of \<^verbatim>\<open>__truediv__\<close> for an exact quotient:
  \<^verbatim>\<open>while exp < ideal_exp and coeff % 10 == 0: coeff //= 10; exp += 1\<close>.
  The first argument is \<open>ideal_exp - exp\<close>, the number of steps the test \<open>exp < ideal_exp\<close>
  still allows.
\<close>

function strip_exact :: "nat \<Rightarrow> nat \<Rightarrow> int \<Rightarrow> nat \<times> int" where
  "strip_exact k coeff ex =
     (if 0 < k \<and> coeff mod 10 = 0 then strip_exact (k - 1) (coeff div 10) (ex + 1)
      else (coeff, ex))"
  by pat_completeness auto
termination
  by (relation "measure (\<lambda>(k, coeff, ex). k)") auto

declare strip_exact.simps [simp del]

text \<open>
  \<^verbatim>\<open>Decimal.__truediv__\<close>.  For non-zero finite operands the coefficient is computed to
  \<open>prec + 1\<close> digits with a sticky last digit and handed to \<open>_fix\<close>.
\<close>

definition dec_div :: "decimal \<Rightarrow> decimal \<Rightarrow> py_error + decimal" where
  "dec_div x y =
     (case check_nans x y of
        Some r \<Rightarrow> r
      | None \<Rightarrow>
         (case (x, y) of
            (Infinity s1, Infinity s2) \<Rightarrow> Inl InvalidOperation
          | (Infinity s1, Finite s2 c2 e2) \<Rightarrow> Inr (Infinity (s1 \<noteq> s2))
          | (Finite s1 c1 e1, Infinity s2) \<Rightarrow> Inr (Finite (s1 \<noteq> s2) 0 Etiny)
          | (Finite s1 c1 e1, Finite s2 c2 e2) \<Rightarrow>
              if c2 = 0 then (if c1 = 0 then Inl InvalidOperation else Inl DivisionByZero)
              else if c1 = 0 then dec_fix (Finite (s1 \<noteq> s2) 0 (e1 - e2))
              else
                let shift = int (ndigits c2) - int (ndigits c1) + int prec + 1;
                    ex = e1 - e2 - shift;
                    num = (if 0 \<le> shift then c1 * 10 ^ nat shift else c1);
                    den = (if 0 \<le> shift then c2 else c2 * 10 ^ nat (- shift));
                    coeff = num div den;
                    remainder = num mod den;
                    res = (if remainder \<noteq> 0
                           then (if coeff mod 5 = 0 then coeff + 1 else coeff, ex)
                           else strip_exact (nat (e1 - e2 - ex)) coeff ex)
                in dec_fix (Finite (s1 \<noteq> s2) (fst res) (snd res))
          | _ \<Rightarrow> Inl InvalidOperation))"

text \<open>
  \<^verbatim>\<open>Decimal._cmp\<close> on operands that are not NaNs: \<open>-1\<close>, \<open>0\<close> or \<open>1\<close>.  Zeros of either sign
  are equal.
\<close>

definition dec_cmp :: "decimal \<Rightarrow> decimal \<Rightarrow> int" where
  "dec_cmp x y =
     (let inf_sign = (\<lambda>d. case d of Infinity s \<Rightarrow> (if s then - 1 else 1 :: int) | _ \<Rightarrow> 0)
      in case (x, y) of
           (Finite s1 c1 e1, Finite s2 c2 e2) \<Rightarrow>
             (let e = min e1 e2; a = scaled s1 c1 e1 e; b = scaled s2 c2 e2 e
              in if a < b then - 1 else if a = b then 0 else 1)
         | _ \<Rightarrow> (if inf_sign x = inf_sign y then 0 else if inf_sign x < inf_sign y then - 1 else 1))"

text \<open>
  \<^verbatim>\<open>==\<close> and \<^verbatim>\<open>!=\<close>: a signalling NaN raises, a quiet NaN is unequal to everything.
  The ordering comparisons raise InvalidOperation on any NaN.
\<close>

definition dec_eq :: "decimal \<Rightarrow> decimal \<Rightarrow> py_error + bool" where
  "dec_eq x y =
     (if is_snan x \<or> is_snan y then Inl InvalidOperation
      else if is_nan x \<or> is_nan y then Inr False
      else Inr (dec_cmp x y = 0))"

definition dec_ne :: "decimal \<Rightarrow> decimal \<Rightarrow> py_error + bool" where
  "dec_ne x y = bind_err (dec_eq x y) (\<lambda>b. Inr (\<not> b))"

definition dec_ge :: "decimal \<Rightarrow> decimal \<Rightarrow> py_error + bool" where
  "dec_ge x y =
     (if is_nan x \<or> is_nan y then Inl InvalidOperation else Inr (0 \<le> dec_cmp x y))"

definition dec_gt :: "decimal \<Rightarrow> decimal \<Rightarrow> py_error + bool" where
  "dec_gt x y =
     (if is_nan x \<or> is_nan y then Inl InvalidOperation else Inr (0 < dec_cmp x y))"

definition dec_lt :: "decimal \<Rightarrow> decimal \<Rightarrow> py_error + bool" where
  "dec_lt x y =
     (if is_nan x \<or> is_nan y then Inl InvalidOperation else Inr (dec_cmp x y < 0))"

text \<open>\<^verbatim>\<open>abs(d)\<close>: the NaN check, the sign cleared, then \<open>_fix\<close>.\<close>

definition dec_abs :: "decimal \<Rightarrow> py_error + decimal" where
  "dec_abs d =
     (if is_snan d then Inl InvalidOperation
      else if is_nan d then dec_fix d
      else case d of
             Finite s c e \<Rightarrow> dec_fix (Finite False c e)
           | Infinity s \<Rightarrow> Inr (Infinity False)
           | _ \<Rightarrow> Inl InvalidOperation)"

text \<open>\<^verbatim>\<open>bool(d)\<close>: every special value and every non-zero number is true.\<close>

definition dec_bool :: "decimal \<Rightarrow> bool" where
  "dec_bool d = (\<not> is_zero d)"

text \<open>The integers \<open>0\<close> and \<open>1\<close> as the comparisons convert them.\<close>

definition dec_zero :: decimal where "dec_zero = Finite False 0 0"
definition dec_one :: decimal where "dec_one = Finite False 1 0"

section \<open>Text\<close>

text \<open>
  The text that the program produces (row names, formatted numbers, report lines) is
  ASCII and is modelled as a list of characters.  The text of a CSV cell is arbitrary,
  and is modelled as the list of its Unicode code points.
\<close>

definition is_digit :: "char \<Rightarrow> bool" where
  "is_digit c = (c \<in> set ''0123456789'')"

definition digit_char :: "nat \<Rightarrow> char" where
  "digit_char d = ''0123456789'' ! (d mod 10)"

text \<open>\<^verbatim>\<open>str(n)\<close> for a non-negative integer.\<close>

function str_nat :: "nat \<Rightarrow> string" where
  "str_nat n = (if n < 10 then [digit_char n] else str_nat (n div 10) @ [digit_char (n mod 10)])"
  by pat_completeness auto
termination
  by (relation "measure id") auto

declare str_nat.simps [simp del]

definition lower_char :: "char \<Rightarrow> char" where
  "lower_char c =
     (case map_of (zip ''ABCDEFGHIJKLMNOPQRSTUVWXYZ'' ''abcdefghijklmnopqrstuvwxyz'') c of
        Some l \<Rightarrow> l | None \<Rightarrow> c)"

text \<open>\<^verbatim>\<open>s.lower()\<close> and \<^verbatim>\<open>s.replace(a, b)\<close> for single characters \<open>a\<close>, \<open>b\<close>.\<close>

definition lower :: "string \<Rightarrow> string" where
  "lower s = map lower_char s"

definition replace_char :: "char \<Rightarrow> char \<Rightarrow> string \<Rightarrow> string" where
  "replace_char a b s = map (\<lambda>c. if c = a then b else c) s"

text \<open>The code points of an ASCII text.\<close>

definition codepoints :: "string \<Rightarrow> nat list" where
  "codepoints s = map of_char s"

section \<open>Constructing a decimal from text\<close>

text \<open>
  The code points for which \<^verbatim>\<open>str.isspace()\<close> holds, and the code points of the digit zero
  of every decimal digit range (each range is ten consecutive code points), both of
  Unicode 14.0, the version of the character database of Python 3.11.
\<close>

definition UNICODE_SPACES :: "nat list" where
  "UNICODE_SPACES =
     [9, 10, 11, 12, 13, 28, 29, 30, 31, 32, 133, 160, 5760, 8192, 8193, 8194, 8195,
      8196, 8197, 8198, 8199, 8200, 8201, 8202, 8232, 8233, 8239, 8287, 12288]"

definition UNICODE_DIGIT_ZEROS :: "nat list" where
  "UNICODE_DIGIT_ZEROS =
     [48, 1632, 1776, 1984, 2406, 2534, 2662, 2790, 2918, 3046, 3174, 3302, 3430, 3558,
      3664, 3792, 3872, 4160, 4240, 6112, 6160, 6470, 6608, 6784, 6800, 6992, 7088,
      7232, 7248, 42528, 43216, 43264, 43472, 43504, 43600, 44016, 65296, 66720, 68912,
      69734, 69872, 69942, 70096, 70384, 70736, 70864, 71248, 71360, 71472, 71904,
      72016, 72784, 73040, 73120, 92768, 92864, 93008, 120782, 120792, 120802, 120812,
      120822, 123200, 123632, 125264, 130032]"

definition is_space :: "nat \<Rightarrow> bool" where
  "is_space cp = (cp \<in> set UNICODE_SPACES)"

text \<open>The decimal digit value of a code point, if it is a decimal digit.\<close>

definition to_decimal :: "nat \<Rightarrow> nat option" where
  "to_decimal cp =
     (case filter (\<lambda>z. z \<le> cp \<and> cp < z + 10) UNICODE_DIGIT_ZEROS of
        [] \<Rightarrow> None | z # zs \<Rightarrow> Some (cp - z))"

definition strip :: "nat list \<Rightarrow> nat list" where
  "strip s = rev (dropWhile is_space (rev (dropWhile is_space s)))"

text \<open>
  The first pass of the constructor over a string: whitespace is stripped from both
  ends and underscores are dropped; an ASCII character other than NUL stays, any other
  whitespace becomes a blank, any other decimal digit becomes its ASCII digit, and
  anything else makes the conversion fail.
\<close>

definition numeric_as_ascii :: "nat list \<Rightarrow> nat list option" where
  "numeric_as_ascii v =
     (let s = filter (\<lambda>cp. cp \<noteq> 95) (strip v)
      in if list_all (\<lambda>cp. (0 < cp \<and> cp \<le> 127) \<or> is_space cp \<or> to_decimal cp \<noteq> None) s
         then Some (map (\<lambda>cp. if 0 < cp \<and> cp \<le> 127 then cp
                               else if is_space cp then 32
                               else 48 + the (to_decimal cp)) s)
         else None)"

definition is_ascii_digit :: "nat \<Rightarrow> bool" where
  "is_ascii_digit cp = (48 \<le> cp \<and> cp \<le> 57)"

text \<open>\<^verbatim>\<open>int(s)\<close> for a string of ASCII digits (the empty string counts as 0).\<close>

definition digits_val :: "nat list \<Rightarrow> nat" where
  "digits_val ds = foldl (\<lambda>a cp. 10 * a + (cp - 48)) 0 ds"

definition ascii_lower :: "nat list \<Rightarrow> nat list" where
  "ascii_lower s = map (\<lambda>cp. if 65 \<le> cp \<and> cp \<le> 90 then cp + 32 else cp) s"

text \<open>
  The limits of an exactly constructed value (\<^verbatim>\<open>decimal.MAX_EMAX\<close>, \<^verbatim>\<open>decimal.MIN_ETINY\<close> on a
  64-bit build): the constructor does not round to the context, but it refuses a
  value that does not fit the largest context.
\<close>

definition MAX_EMAX :: int where "MAX_EMAX = 999999999999999999"
definition MIN_ETINY :: int where "MIN_ETINY = - 1999999999999999997"

definition exact_finite :: "bool \<Rightarrow> nat \<Rightarrow> int \<Rightarrow> decimal option" where
  "exact_finite s c e =
     (if MIN_ETINY \<le> e \<and> (if c = 0 then e \<le> MAX_EMAX else int (ndigits c) + e - 1 \<le> MAX_EMAX)
      then Some (Finite s c e) else None)"

text \<open>
  The exponent part of a numeric string: nothing, or \<^verbatim>\<open>e\<close>, an optional sign and at least
  one digit, up to the end of the string.  The argument is already lower-cased.
\<close>

definition parse_exponent :: "nat list \<Rightarrow> int option" where
  "parse_exponent r =
     (case r of
        [] \<Rightarrow> Some 0
      | c # cs \<Rightarrow>
          if c \<noteq> of_char (CHR ''e'') then None
          else
            let neg = (case cs of d # ds \<Rightarrow> d = of_char (CHR ''-'') | [] \<Rightarrow> False);
                ds = (case cs of
                        d # ds \<Rightarrow> if d = of_char (CHR ''-'') \<or> d = of_char (CHR ''+'') then ds else cs
                      | [] \<Rightarrow> [])
            in if ds \<noteq> [] \<and> list_all is_ascii_digit ds
               then Some (if neg then - int (digits_val ds) else int (digits_val ds))
               else None)"

text \<open>
  A number: digits, an optional point and more digits, with at least one digit in all,
  and an optional exponent.  The coefficient is the integer and fraction digits together;
  the exponent is lowered by the number of fraction digits.
\<close>

definition parse_number :: "bool \<Rightarrow> nat list \<Rightarrow> decimal option" where
  "parse_number sg low =
     (let ip = takeWhile is_ascii_digit low;
          r1 = dropWhile is_ascii_digit low;
          has_dot = (case r1 of c # cs \<Rightarrow> c = of_char (CHR ''.'') | [] \<Rightarrow> False);
          fp = (if has_dot then takeWhile is_ascii_digit (tl r1) else []);
          r2 = (if has_dot then dropWhile is_ascii_digit (tl r1) else r1)
      in if ip = [] \<and> fp = [] then None
         else case parse_exponent r2 of
                None \<Rightarrow> None
              | Some ex \<Rightarrow> exact_finite sg (digits_val (ip @ fp)) (ex - int (length fp)))"

text \<open>
  The grammar of the constructor on the ASCII text of the first pass: an optional sign
  followed by a number, \<^verbatim>\<open>Inf\<close>/\<^verbatim>\<open>Infinity\<close> or \<^verbatim>\<open>NaN\<close>/\<^verbatim>\<open>sNaN\<close> with an optional payload, in
  any letter case.
\<close>

definition parse_ascii :: "nat list \<Rightarrow> decimal option" where
  "parse_ascii s =
     (let sg = (case s of c # cs \<Rightarrow> c = of_char (CHR ''-'') | [] \<Rightarrow> False);
          body = (case s of
                    c # cs \<Rightarrow> if c = of_char (CHR ''-'') \<or> c = of_char (CHR ''+'') then cs else s
                  | [] \<Rightarrow> []);
          low = ascii_lower body
      in if low = codepoints ''inf'' \<or> low = codepoints ''infinity'' then Some (Infinity sg)
         else if take 3 low = codepoints ''nan'' \<and> list_all is_ascii_digit (drop 3 low)
           then Some (QNaN sg (digits_val (drop 3 low)))
         else if take 4 low = codepoints ''snan'' \<and> list_all is_ascii_digit (drop 4 low)
           then Some (SNaN sg (digits_val (drop 4 low)))
         else parse_number sg low)"

text \<open>
  \<^verbatim>\<open>Decimal(s)\<close> for a string \<open>s\<close>, given by its code points.  \<open>None\<close> stands for the
  InvalidOperation that the constructor raises on a text that is not a numeric string.
\<close>

definition Decimal_from_str :: "nat list \<Rightarrow> decimal option" where
  "Decimal_from_str v =
     (case numeric_as_ascii v of None \<Rightarrow> None | Some s \<Rightarrow> parse_ascii s)"

section \<open>Rows\<close>

text \<open>
  What \<^verbatim>\<open>Row\<close> is given for a period value: a CSV cell (a string, as code points), \<^verbatim>\<open>None\<close> (a cell missing
  from a short CSV record) or a \<^verbatim>\<open>Decimal\<close> computed by a formula.
\<close>

datatype raw = RStr "nat list" | RNone | RDec decimal

text \<open>
  \<^verbatim>\<open>safe_decimal(value)\<close> is \<^verbatim>\<open>Decimal(str(value))\<close> with InvalidOperation and TypeError
  turned into \<^verbatim>\<open>None\<close>.  \<^verbatim>\<open>str(None)\<close> is the text \<^verbatim>\<open>None\<close>; \<^verbatim>\<open>str\<close> of a decimal
  is read back by the constructor as the same decimal.
\<close>

definition safe_decimal :: "raw \<Rightarrow> decimal option" where
  "safe_decimal v =
     (case v of RStr s \<Rightarrow> Decimal_from_str s
              | RNone \<Rightarrow> Decimal_from_str (codepoints ''None'')
              | RDec d \<Rightarrow> Some d)"

record row =
  name :: string
  current_year :: "decimal option"
  last_year :: "decimal option"
  difference :: "decimal option"
  ratio :: "decimal option"

text \<open>
  \<^verbatim>\<open>Row(name, current_year, last_year)\<close>, that is \<^verbatim>\<open>__post_init__\<close>.  The condition of the
  conditional expression is evaluated first, \<^verbatim>\<open>and\<close> short-circuits, and nothing here
  catches what the decimal operations raise.
\<close>

definition Row :: "string \<Rightarrow> raw \<Rightarrow> raw \<Rightarrow> py_error + row" where
  "Row nm cy ly =
     (case (safe_decimal cy, safe_decimal ly) of
        (Some c, Some l) \<Rightarrow>
          bind_err (dec_sub c l) (\<lambda>d.
          bind_err (dec_ne l dec_zero) (\<lambda>nz.
          bind_err (if nz then bind_err (dec_mul c l) (\<lambda>m. dec_ge m dec_zero) else Inr False)
            (\<lambda>cond.
          bind_err (if cond then bind_err (dec_div d l) (\<lambda>q. Inr (Some q)) else Inr None)
            (\<lambda>r.
          Inr \<lparr>name = nm, current_year = Some c, last_year = Some l,
               difference = Some d, ratio = r\<rparr>))))
      | (c, l) \<Rightarrow>
          Inr \<lparr>name = nm, current_year = c, last_year = l,
               difference = None, ratio = None\<rparr>)"

section \<open>Formatting a decimal\<close>

text \<open>
  \<^verbatim>\<open>Decimal._rescale(exp, ROUND_HALF_EVEN)\<close> on a finite number: the coefficient of the
  number written with exponent \<open>ex\<close>, padded with zeros or rounded half-even; a zero stays
  a zero.
\<close>

definition rescale_coeff :: "nat \<Rightarrow> int \<Rightarrow> int \<Rightarrow> nat" where
  "rescale_coeff c e ex =
     (if c = 0 then 0
      else if ex \<le> e then c * 10 ^ nat (e - ex)
      else round_half_even c (nat (ex - e)))"

text \<open>
  The digits before and after the decimal point of a coefficient with exponent \<open>-2\<close>, as
  \<^verbatim>\<open>Decimal.__format__\<close> cuts the digit string.
\<close>

definition split_fixed2 :: "nat \<Rightarrow> string \<times> string" where
  "split_fixed2 q =
     (let ds = str_nat q; n = length ds
      in if n < 2 then (''0'', replicate (2 - n) (CHR ''0'') @ ds)
         else (if take (n - 2) ds = [] then ''0'' else take (n - 2) ds, drop (n - 2) ds))"

text \<open>
  \<^verbatim>\<open>_insert_thousands_sep\<close> with groups of three and no minimum width: the last three
  digits are split off while more than three remain, and the groups are joined with the
  separator (\<^verbatim>\<open>,\<close> for the format \<^verbatim>\<open>,.2f\<close>, the empty string for \<^verbatim>\<open>.2f\<close>).
\<close>

function insert_thousands_sep :: "string \<Rightarrow> string \<Rightarrow> string" where
  "insert_thousands_sep sep ds =
     (if length ds \<le> 3 then ds
      else insert_thousands_sep sep (take (length ds - 3) ds) @ sep @ drop (length ds - 3) ds)"
  by pat_completeness auto
termination
  by (relation "measure (\<lambda>(sep, ds). length ds)") auto

declare insert_thousands_sep.simps [simp del]

text \<open>The text of a special value without its sign: \<^verbatim>\<open>str(d.copy_abs())\<close>.\<close>

definition special_body :: "decimal \<Rightarrow> string" where
  "special_body d =
     (case d of
        Infinity s \<Rightarrow> ''Infinity''
      | QNaN s p \<Rightarrow> ''NaN'' @ (if p = 0 then [] else str_nat p)
      | SNaN s p \<Rightarrow> ''sNaN'' @ (if p = 0 then [] else str_nat p)
      | Finite s c e \<Rightarrow> [])"

definition sign_of :: "decimal \<Rightarrow> bool" where
  "sign_of d = (case d of Finite s c e \<Rightarrow> s | Infinity s \<Rightarrow> s | QNaN s p \<Rightarrow> s | SNaN s p \<Rightarrow> s)"

text \<open>
  The largest number of digits of a coefficient (\<^verbatim>\<open>decimal.MAX_PREC\<close> on a 64-bit build).
\<close>

definition MAX_PREC :: int where "MAX_PREC = 999999999999999999"

text \<open>
  \<^verbatim>\<open>format(d, ",.2f")\<close>, \<^verbatim>\<open>format(d, ".2f")\<close> and \<^verbatim>\<open>format(d, ".2%")\<close>: the first argument
  is the thousands separator, the second says whether the type is \<^verbatim>\<open>%\<close>.  A special value
  is its sign and its name; a number is rescaled to two fractional digits (after its
  exponent is raised by two for \<^verbatim>\<open>%\<close>).  When padding a non-zero coefficient with zeros
  would give it more than \<open>MAX_PREC + 1\<close> digits, the formatter raises ValueError
  (\<^verbatim>\<open>format specification exceeds internal limits of _decimal\<close>).  Below that limit the
  model builds the digit string however long it is; a machine whose memory the string
  exceeds raises MemoryError instead, which the model does not have.
\<close>

definition format_fixed2 :: "string \<Rightarrow> bool \<Rightarrow> decimal \<Rightarrow> py_error + string" where
  "format_fixed2 sep pct d =
     (let sg = (if sign_of d then ''-'' else []); suffix = (if pct then ''%'' else [])
      in case d of
           Finite s c e \<Rightarrow>
             (let ex = (if pct then e + 2 else e)
              in if c \<noteq> 0 \<and> - 2 \<le> ex \<and> MAX_PREC + 1 < int (ndigits c) + (ex + 2)
                 then Inl ValueError
                 else
                   let parts = split_fixed2 (rescale_coeff c ex (- 2))
                   in Inr (sg @ insert_thousands_sep sep (fst parts) @ ''.'' @ snd parts
                           @ suffix))
         | _ \<Rightarrow> Inr (sg @ special_body d @ suffix))"

section \<open>The regular expression that strips trailing zeros\<close>

text \<open>
  A backtracking matcher for the constructs that \<^verbatim>\<open>tail_dot_rgx\<close> uses: character
  classes, the lazy \<^verbatim>\<open>*?\<close> and the greedy \<^verbatim>\<open>+\<close> on a class, concatenation, ordered
  alternation, capture groups, lookahead and \<^verbatim>\<open>\b\<close>.  A match state is the captured
  groups, the character before the current position and the rest of the text; the
  continuation is what has to match afterwards, and \<open>None\<close> makes the matcher backtrack.
\<close>

datatype cclass = Exactly char | AnyDigit | NonZeroDigit | NotDigit

definition in_class :: "cclass \<Rightarrow> char \<Rightarrow> bool" where
  "in_class k c =
     (case k of Exactly x \<Rightarrow> c = x | AnyDigit \<Rightarrow> is_digit c
      | NonZeroDigit \<Rightarrow> is_digit c \<and> c \<noteq> CHR ''0'' | NotDigit \<Rightarrow> \<not> is_digit c)"

datatype rx =
  One cclass | LazyMany cclass | GreedySome cclass | Cat rx rx | Alt rx rx
  | Group nat rx | Ahead rx | WordBoundary

type_synonym groups = "nat \<Rightarrow> string option"
type_synonym mstate = "groups \<times> char option \<times> string"

definition is_word_char :: "char \<Rightarrow> bool" where
  "is_word_char c =
     (c \<in> set ''abcdefghijklmnopqrstuvwxyzABCDEFGHIJKLMNOPQRSTUVWXYZ0123456789_'')"

definition at_boundary :: "char option \<Rightarrow> string \<Rightarrow> bool" where
  "at_boundary prev s =
     ((case prev of None \<Rightarrow> False | Some c \<Rightarrow> is_word_char c)
      \<noteq> (case s of [] \<Rightarrow> False | c # cs \<Rightarrow> is_word_char c))"

fun lazy_many ::
  "(char \<Rightarrow> bool) \<Rightarrow> char option \<Rightarrow> string \<Rightarrow> (char option \<Rightarrow> string \<Rightarrow> mstate option)
     \<Rightarrow> mstate option" where
  "lazy_many p prev [] k = k prev []"
| "lazy_many p prev (c # cs) k =
     (case k prev (c # cs) of
        Some r \<Rightarrow> Some r
      | None \<Rightarrow> if p c then lazy_many p (Some c) cs k else None)"

fun greedy_many ::
  "(char \<Rightarrow> bool) \<Rightarrow> char option \<Rightarrow> string \<Rightarrow> (char option \<Rightarrow> string \<Rightarrow> mstate option)
     \<Rightarrow> mstate option" where
  "greedy_many p prev [] k = k prev []"
| "greedy_many p prev (c # cs) k =
     (if p c
      then (case greedy_many p (Some c) cs k of Some r \<Rightarrow> Some r | None \<Rightarrow> k prev (c # cs))
      else k prev (c # cs))"

fun rx_match ::
  "rx \<Rightarrow> groups \<Rightarrow> char option \<Rightarrow> string
     \<Rightarrow> (groups \<Rightarrow> char option \<Rightarrow> string \<Rightarrow> mstate option) \<Rightarrow> mstate option" where
  "rx_match (One cl) g prev s k =
     (case s of [] \<Rightarrow> None | c # cs \<Rightarrow> if in_class cl c then k g (Some c) cs else None)"
| "rx_match (LazyMany cl) g prev s k = lazy_many (in_class cl) prev s (k g)"
| "rx_match (GreedySome cl) g prev s k =
     (case s of [] \<Rightarrow> None
      | c # cs \<Rightarrow> if in_class cl c then greedy_many (in_class cl) (Some c) cs (k g) else None)"
| "rx_match (Cat a b) g prev s k = rx_match a g prev s (\<lambda>g' prev' s'. rx_match b g' prev' s' k)"
| "rx_match (Alt a b) g prev s k =
     (case rx_match a g prev s k of Some r \<Rightarrow> Some r | None \<Rightarrow> rx_match b g prev s k)"
| "rx_match (Group n a) g prev s k =
     rx_match a g prev s
       (\<lambda>g' prev' s'. k (g'(n := Some (take (length s - length s') s))) prev' s')"
| "rx_match (Ahead a) g prev s k =
     (case rx_match a g prev s (\<lambda>g' prev' s'. Some (g', prev', s')) of
        None \<Rightarrow> None
      | Some r \<Rightarrow> k (fst r) prev s)"
| "rx_match WordBoundary g prev s k = (if at_boundary prev s then k g prev s else None)"

text \<open>
  \<^verbatim>\<open>tail_dot_rgx = re.compile(r"(?:(\.)|(\.\d*?[1-9]\d*?))0+(?=\b|[^0-9])")\<close>
\<close>

definition tail_dot_rgx :: rx where
  "tail_dot_rgx =
     Cat (Alt (Group 1 (One (Exactly (CHR ''.''))))
              (Group 2 (Cat (One (Exactly (CHR ''.'')))
                       (Cat (LazyMany AnyDigit) (Cat (One NonZeroDigit) (LazyMany AnyDigit))))))
         (Cat (GreedySome (Exactly (CHR ''0'')))
              (Ahead (Alt WordBoundary (One NotDigit))))"

text \<open>An attempt to match the expression at the current position.\<close>

definition match_here :: "rx \<Rightarrow> char option \<Rightarrow> string \<Rightarrow> mstate option" where
  "match_here r prev s = rx_match r (\<lambda>n. None) prev s (\<lambda>g prev' s'. Some (g, prev', s'))"

text \<open>
  \<^verbatim>\<open>rgx.sub(r"\2", a)\<close>: scanning from the left, every match is replaced by its group 2
  (the empty string when that group did not take part), and the scan goes on behind the
  match; where nothing matches, the character is copied.  A match that consumes nothing
  inserts its replacement and copies the next character.
\<close>

function sub_group2 :: "rx \<Rightarrow> char option \<Rightarrow> string \<Rightarrow> string" where
  "sub_group2 r prev s =
     (case match_here r prev s of
        Some m \<Rightarrow>
          (let rep = (case fst m 2 of None \<Rightarrow> [] | Some t \<Rightarrow> t); rest = snd (snd m)
           in if length rest < length s then rep @ sub_group2 r (fst (snd m)) rest
              else (case s of [] \<Rightarrow> rep | c # cs \<Rightarrow> rep @ c # sub_group2 r (Some c) cs))
      | None \<Rightarrow> (case s of [] \<Rightarrow> [] | c # cs \<Rightarrow> c # sub_group2 r (Some c) cs))"
  by pat_completeness auto
termination
  by (relation "measure (\<lambda>(r, prev, s). length s)") auto

declare sub_group2.simps [simp del]

definition remove_tail_dot_zeros :: "string \<Rightarrow> string" where
  "remove_tail_dot_zeros a = sub_group2 tail_dot_rgx None a"

text \<open>
  \<^verbatim>\<open>format_decimal(value, as_percent, with_commas)\<close>: whatever the formatting raises is
  caught and gives the empty string.
\<close>

definition format_decimal :: "decimal option \<Rightarrow> bool \<Rightarrow> bool \<Rightarrow> string" where
  "format_decimal v as_percent with_commas =
     (case v of
        None \<Rightarrow> []
      | Some d \<Rightarrow>
          if as_percent
          then (case format_fixed2 [] True d of Inl e \<Rightarrow> [] | Inr formatted \<Rightarrow> formatted)
          else (case format_fixed2 (if with_commas then '','' else []) False d of
                  Inl e \<Rightarrow> []
                | Inr formatted \<Rightarrow> remove_tail_dot_zeros formatted))"

section \<open>The table\<close>

text \<open>
  \<^verbatim>\<open>Table\<close>: the list of rows and the dictionary from row names to row indices.  A
  dictionary value is an integer or \<^verbatim>\<open>None\<close>; \<^verbatim>\<open>dict.get\<close> answers \<^verbatim>\<open>None\<close> for a key
  that is not there as well.
\<close>

record table =
  rows :: "row list"
  row_name_index_dict :: "string \<Rightarrow> int option option"

definition DEFAULT_COLUMN_ROW_INDEX :: "string \<Rightarrow> int option option" where
  "DEFAULT_COLUMN_ROW_INDEX =
     map_of [(''current_asset'', Some 7), (''current_liability'', Some 10),
             (''ncib_debt'', Some 9), (''equity'', Some 13), (''ebit'', Some 2),
             (''interest_costs'', Some 3), (''debt_service_of_principal'', Some 12),
             (''revenue'', Some 1), (''profit'', Some 4), (''assets'', Some 8),
             (''liabilities'', Some 11), (''cash_flow'', Some 15),
             (''current_ratio'', None), (''dte_ratio'', None), (''dsc_ratio'', None)]"

definition Table :: table where
  "Table = \<lparr>rows = [], row_name_index_dict = DEFAULT_COLUMN_ROW_INDEX\<rparr>"

text \<open>
  \<^verbatim>\<open>xs[i]\<close> on a list: a negative index counts from the end, and an index outside the list
  raises IndexError.
\<close>

definition list_getitem :: "'a list \<Rightarrow> int \<Rightarrow> py_error + 'a" where
  "list_getitem xs i =
     (let n = int (length xs); j = (if i < 0 then i + n else i)
      in if 0 \<le> j \<and> j < n then Inr (xs ! nat j) else Inl IndexError)"

definition dict_get :: "(string \<Rightarrow> int option option) \<Rightarrow> string \<Rightarrow> int option" where
  "dict_get d k = (case d k of None \<Rightarrow> None | Some v \<Rightarrow> v)"

definition get_row_by_name :: "table \<Rightarrow> string \<Rightarrow> py_error + row option" where
  "get_row_by_name t row_name =
     (case dict_get (row_name_index_dict t) row_name of
        None \<Rightarrow> Inr None
      | Some i \<Rightarrow>
          if int (length (rows t)) \<le> i then Inr None
          else bind_err (list_getitem (rows t) i) (\<lambda>r. Inr (Some r)))"

definition add_row :: "table \<Rightarrow> row \<Rightarrow> table" where
  "add_row t r = t\<lparr>rows := rows t @ [r]\<rparr>"

section \<open>Derived rows\<close>

text \<open>
  The operators of the formulas on the values that a row holds: a decimal or \<^verbatim>\<open>None\<close>.
  An operand that is \<^verbatim>\<open>None\<close> raises TypeError.
\<close>

definition py_truediv :: "decimal option \<Rightarrow> decimal option \<Rightarrow> py_error + decimal" where
  "py_truediv a b = (case (a, b) of (Some x, Some y) \<Rightarrow> dec_div x y | _ \<Rightarrow> Inl TypeError)"

definition py_add :: "decimal option \<Rightarrow> decimal option \<Rightarrow> py_error + decimal" where
  "py_add a b = (case (a, b) of (Some x, Some y) \<Rightarrow> dec_add x y | _ \<Rightarrow> Inl TypeError)"

type_synonym formula = "decimal option list \<Rightarrow> py_error + decimal"

text \<open>
  The three lambdas of \<^verbatim>\<open>ADDITIONAL_ROWS\<close>, applied to an argument list; a call with the
  wrong number of arguments raises TypeError.
\<close>

fun current_ratio_formula :: formula where
  "current_ratio_formula [current_asset, current_liability] =
     py_truediv current_asset current_liability"
| "current_ratio_formula _ = Inl TypeError"

fun dte_ratio_formula :: formula where
  "dte_ratio_formula [ncib_debt, equity] = py_truediv ncib_debt equity"
| "dte_ratio_formula _ = Inl TypeError"

fun dsc_ratio_formula :: formula where
  "dsc_ratio_formula [ebit, interest_costs, principal'] =
     bind_err (py_add interest_costs principal') (\<lambda>s. py_truediv ebit (Some s))"
| "dsc_ratio_formula _ = Inl TypeError"

definition ADDITIONAL_ROWS :: "(string \<times> formula \<times> string list) list" where
  "ADDITIONAL_ROWS =
     [(''Current Ratio'', current_ratio_formula, [''current_asset'', ''current_liability'']),
      (''Debt to Equity Ratio'', dte_ratio_formula, [''ncib_debt'', ''equity'']),
      (''Debt Service Coverage Ratio'', dsc_ratio_formula,
         [''ebit'', ''interest_costs'', ''debt_service_of_principal''])]"

text \<open>A list comprehension whose element expression may raise: the first exception wins.\<close>

fun map_err :: "('a \<Rightarrow> py_error + 'b) \<Rightarrow> 'a list \<Rightarrow> py_error + 'b list" where
  "map_err f [] = Inr []"
| "map_err f (x # xs) = bind_err (f x) (\<lambda>y. bind_err (map_err f xs) (\<lambda>ys. Inr (y # ys)))"

text \<open>\<^verbatim>\<open>self.get_row_by_name(n).current_year\<close>: an absent row raises AttributeError.\<close>

definition row_attr :: "table \<Rightarrow> (row \<Rightarrow> decimal option) \<Rightarrow> string \<Rightarrow> py_error + decimal option" where
  "row_attr t attr n =
     bind_err (get_row_by_name t n)
       (\<lambda>r. case r of None \<Rightarrow> Inl AttributeError | Some x \<Rightarrow> Inr (attr x))"

definition get_values_from_lambda_tuple ::
  "table \<Rightarrow> formula \<Rightarrow> string list \<Rightarrow> py_error + decimal \<times> decimal" where
  "get_values_from_lambda_tuple t func names =
     bind_err (map_err (row_attr t current_year) names) (\<lambda>args_current.
     bind_err (map_err (row_attr t last_year) names) (\<lambda>args_last.
     bind_err (func args_current) (\<lambda>c.
     bind_err (func args_last) (\<lambda>l. Inr (c, l)))))"

text \<open>\<^verbatim>\<open>name.lower().replace(" ", "_")\<close>\<close>

definition index_key :: "string \<Rightarrow> string" where
  "index_key nm = replace_char (CHR '' '') (CHR ''_'') (lower nm)"

text \<open>
  One round of the loop of \<^verbatim>\<open>generate_additional_rows\<close>.  The \<^verbatim>\<open>try\<close> block computes the
  two values, builds the row, appends it and registers its index; any exception in it
  (every modelled one is an \<^verbatim>\<open>Exception\<close>) is raised before the append, and the handler
  appends \<^verbatim>\<open>Row(name, "", "")\<close> without registering it.
\<close>

definition additional_row_step :: "table \<Rightarrow> string \<times> formula \<times> string list \<Rightarrow> py_error + table" where
  "additional_row_step t entry =
     (case entry of (nm, func, args) \<Rightarrow>
        (case bind_err (get_values_from_lambda_tuple t func args)
                (\<lambda>v. Row nm (RDec (fst v)) (RDec (snd v))) of
           Inr r \<Rightarrow>
             Inr (t\<lparr>rows := rows t @ [r],
                    row_name_index_dict :=
                      (row_name_index_dict t)
                        (index_key nm := Some (Some (int (length (rows t @ [r])) - 1)))\<rparr>)
         | Inl e \<Rightarrow>
             bind_err (Row nm (RStr []) (RStr [])) (\<lambda>r. Inr (t\<lparr>rows := rows t @ [r]\<rparr>))))"

fun generate_from :: "(string \<times> formula \<times> string list) list \<Rightarrow> table \<Rightarrow> py_error + table" where
  "generate_from [] t = Inr t"
| "generate_from (entry # entries) t =
     bind_err (additional_row_step t entry) (generate_from entries)"

definition generate_additional_rows :: "table \<Rightarrow> py_error + table" where
  "generate_additional_rows t = generate_from ADDITIONAL_ROWS t"

text \<open>
  The tables that the program can hold: a new table, then any sequence of \<^verbatim>\<open>add_row\<close> and
  \<^verbatim>\<open>generate_additional_rows\<close>.
\<close>

inductive table_state :: "table \<Rightarrow> bool" where
  new_table: "table_state Table"
| added: "table_state t \<Longrightarrow> table_state (add_row t r)"
| generated: "table_state t \<Longrightarrow> generate_additional_rows t = Inr t' \<Longrightarrow> table_state t'"

section \<open>The two reports\<close>

definition CURRENCY :: string where "CURRENCY = ''$''"
definition UNIT :: string where "UNIT = ''m''"
definition COMPANY_NAME :: string where "COMPANY_NAME = ''Wokki Company''"
definition LAST_YEAR_NUMBER :: nat where "LAST_YEAR_NUMBER = 2022"

definition REPORT_NAMES :: "string list" where
  "REPORT_NAMES = [''revenue'', ''profit'', ''assets'', ''liabilities'', ''equity'',
                   ''current_ratio'', ''dte_ratio'', ''dsc_ratio'']"

text \<open>
  \<^verbatim>\<open>"an increase" if row.difference >= 0 else "a decrease"\<close>: comparing \<^verbatim>\<open>None\<close> with an
  integer raises TypeError.
\<close>

definition change_type :: "row \<Rightarrow> py_error + string" where
  "change_type r =
     (case difference r of
        None \<Rightarrow> Inl TypeError
      | Some d \<Rightarrow> bind_err (dec_ge d dec_zero)
                   (\<lambda>b. Inr (if b then ''an increase'' else ''a decrease'')))"

definition report_paragraph :: "string \<Rightarrow> row \<Rightarrow> string \<Rightarrow> string" where
  "report_paragraph nm r ct =
     COMPANY_NAME @ '' has seen '' @ ct @ '' in '' @ replace_char (CHR ''_'') (CHR '' '') nm
     @ '' in '' @ str_nat LAST_YEAR_NUMBER @ '' of '' @ CURRENCY
     @ format_decimal (difference r) False True @ UNIT
     @ '' ('' @ format_decimal (ratio r) True True @ '') from ''
     @ CURRENCY @ format_decimal (last_year r) False True @ UNIT @ '' to ''
     @ CURRENCY @ format_decimal (current_year r) False True @ UNIT @ ''.''
     @ [CHR 0x0A, CHR 0x0A]"

text \<open>\<^verbatim>\<open>row.ratio and abs(row.ratio) > 1\<close>\<close>

definition ratio_flag :: "row \<Rightarrow> py_error + bool" where
  "ratio_flag r =
     (case ratio r of
        None \<Rightarrow> Inr False
      | Some q \<Rightarrow> if dec_bool q then bind_err (dec_abs q) (\<lambda>a. dec_gt a dec_one) else Inr False)"

text \<open>The warning line; its dash is U+2013, written here as its three UTF-8 bytes.\<close>

definition RATIO_WARNING :: string where
  "RATIO_WARNING =
     ''!!! Ratio > 1.0 '' @ [CHR 0xE2, CHR 0x80, CHR 0x93]
     @ '' may require further explanation'' @ [CHR 0x0A, CHR 0x0A]"

text \<open>
  The loop of \<^verbatim>\<open>write_text_report\<close>.  The result is what has been written to the file and
  the exception that ended the loop, if any.
\<close>

fun write_rows :: "table \<Rightarrow> string list \<Rightarrow> string list \<Rightarrow> string list \<times> py_error option" where
  "write_rows t [] out = (out, None)"
| "write_rows t (nm # nms) out =
     (case get_row_by_name t nm of
        Inl e \<Rightarrow> (out, Some e)
      | Inr None \<Rightarrow> write_rows t nms out
      | Inr (Some r) \<Rightarrow>
          (case change_type r of
             Inl e \<Rightarrow> (out, Some e)
           | Inr ct \<Rightarrow>
               (case ratio_flag r of
                  Inl e \<Rightarrow> (out @ [report_paragraph nm r ct], Some e)
                | Inr b \<Rightarrow>
                    write_rows t nms
                      (out @ [report_paragraph nm r ct] @ (if b then [RATIO_WARNING] else [])))))"

definition write_text_report :: "table \<Rightarrow> string list \<times> py_error option" where
  "write_text_report t = write_rows t REPORT_NAMES []"

text \<open>
  \<^verbatim>\<open>analyse_file\<close> on the records that \<^verbatim>\<open>csv.DictReader\<close> yields, each with a name and two
  period cells.  File names and the files themselves are left out; the result is the
  content of the two outputs, as far as they were written, and the exception that ended
  the run, if any.
\<close>

fun read_rows :: "(string \<times> raw \<times> raw) list \<Rightarrow> table \<Rightarrow> py_error + table" where
  "read_rows [] t = Inr t"
| "read_rows (rec # recs) t =
     bind_err (Row (fst rec) (fst (snd rec)) (snd (snd rec))) (\<lambda>r. read_rows recs (add_row t r))"

definition csv_line :: "row \<Rightarrow> string list" where
  "csv_line r =
     [name r, format_decimal (current_year r) False True,
      format_decimal (last_year r) False True, format_decimal (difference r) False True,
      format_decimal (ratio r) True True]"

record run_result =
  csv_sink :: "string list list option"
  txt_sink :: "string list option"
  raised :: "py_error option"

definition analyse_file :: "(string \<times> raw \<times> raw) list \<Rightarrow> run_result" where
  "analyse_file recs =
     (case bind_err (read_rows recs Table) generate_additional_rows of
        Inl e \<Rightarrow> \<lparr>csv_sink = None, txt_sink = None, raised = Some e\<rparr>
      | Inr t \<Rightarrow>
          \<lparr>csv_sink =
             Some ([''name'', ''current_year'', ''last_year'', ''difference'', ''ratio'']
                   # map csv_line (rows t)),
           txt_sink = Some (fst (write_text_report t)),
           raised = snd (write_text_report t)\<rparr>)"

section \<open>Stripping trailing zeros, as specified\<close>

text \<open>
  What the specification says of a fraction: trailing zeros are stripped, and the decimal
  point goes only when no fractional digit remains.
\<close>

definition spec_strip_fraction :: "string \<Rightarrow> string" where
  "spec_strip_fraction fp =
     (let kept = rev (dropWhile (\<lambda>c. c = CHR ''0'') (rev fp))
      in if kept = [] then [] else CHR ''.'' # kept)"

section \<open>A sample statement\<close>

text \<open>
  The records of a statement laid out as \<^verbatim>\<open>DEFAULT_COLUMN_ROW_INDEX\<close> expects: 16 data
  lines under the header, with revenue in line 1, EBIT in 2, interest costs in 3, profit
  in 4, current assets in 7, total assets in 8, non-current interest-bearing debt in 9,
  current liabilities in 10, total liabilities in 11, debt service of principal in 12,
  equity in 13 and cash flow in 15; lines 0, 5, 6 and 14 are headings with empty cells.
\<close>

definition sample_records :: "(string \<times> raw \<times> raw) list" where
  "sample_records =
     [(''Income statement'', RStr [], RStr []),
      (''Revenue'', RStr (codepoints ''300''), RStr (codepoints ''100'')),
      (''EBIT'', RStr (codepoints ''60''), RStr (codepoints ''30'')),
      (''Interest costs'', RStr (codepoints ''4''), RStr (codepoints ''2'')),
      (''Profit'', RStr (codepoints ''10''), RStr (codepoints ''20'')),
      (''Notes'', RStr [], RStr []),
      (''Balance sheet'', RStr [], RStr []),
      (''Current assets'', RStr (codepoints ''100''), RStr (codepoints ''80'')),
      (''Total assets'', RStr (codepoints ''500''), RStr (codepoints ''400'')),
      (''Non-current interest-bearing debt'', RStr (codepoints ''30''), RStr (codepoints ''20'')),
      (''Current liabilities'', RStr (codepoints ''50''), RStr (codepoints ''40'')),
      (''Total liabilities'', RStr (codepoints ''200''), RStr (codepoints ''100'')),
      (''Debt service of principal'', RStr (codepoints ''6''), RStr (codepoints ''4'')),
      (''Equity'', RStr (codepoints ''150''), RStr (codepoints ''100'')),
      (''Cash flow statement'', RStr [], RStr []),
      (''Cash flow'', RStr (codepoints ''25''), RStr (codepoints ''20''))]"

text \<open>The table read from the first 13 lines: a statement that ends before the equity line.\<close>

definition table_without_equity :: table where
  "table_without_equity = projr (read_rows (take 13 sample_records) Table)"

text \<open>The sample statement with an unparseable current-period cell in the revenue line.\<close>

definition records_bad_revenue :: "(string \<times> raw \<times> raw) list" where
  "records_bad_revenue = sample_records [1 := (''Revenue'', RStr (codepoints ''n/a''), RStr (codepoints ''100''))]"

section \<open>Evaluation and basic facts\<close>

text \<open>The unfolding rules with which the simplifier evaluates the model on concrete input.\<close>


lemmas parse_eval = Decimal_from_str_def numeric_as_ascii_def parse_ascii_def parse_number_def
  parse_exponent_def exact_finite_def MAX_EMAX_def MIN_ETINY_def strip_def is_space_def
  UNICODE_SPACES_def UNICODE_DIGIT_ZEROS_def to_decimal_def is_ascii_digit_def digits_val_def
  ascii_lower_def codepoints_def ndigits.simps

lemmas dec_eval = dec_div_def dec_mul_def dec_add_def dec_sub_def check_nans_def is_snan_def
  is_nan_def is_zero_def dec_fix_def ndigits.simps strip_exact.simps prec_def Etop_def Emax_def
  Etiny_def Emin_def round_half_even_def scaled_def copy_negate_def dec_cmp_def dec_eq_def
  dec_ne_def dec_ge_def dec_gt_def dec_lt_def dec_abs_def dec_bool_def dec_zero_def dec_one_def
  bind_err_def

lemma bind_err_Inr [simp]: "bind_err (Inr v) f = f v"
  by (simp add: bind_err_def)

lemma bind_err_Inl [simp]: "bind_err (Inl e) f = Inl e"
  by (simp add: bind_err_def)

lemma bind_err_eq_Inr: "bind_err m f = Inr r \<longleftrightarrow> (\<exists>v. m = Inr v \<and> f v = Inr r)"
  by (cases m) simp_all

lemma bind_err_eq_Inl: "bind_err m f = Inl e \<longleftrightarrow> m = Inl e \<or> (\<exists>v. m = Inr v \<and> f v = Inl e)"
  by (cases m) simp_all

lemma Row_unparseable:
  "safe_decimal cy = None \<or> safe_decimal ly = None \<Longrightarrow>
   Row nm cy ly = Inr \<lparr>name = nm, current_year = safe_decimal cy, last_year = safe_decimal ly,
                        difference = None, ratio = None\<rparr>"
  by (auto simp: Row_def split: option.splits)

lemma Row_parsed:
  "safe_decimal cy = Some c \<Longrightarrow> safe_decimal ly = Some l \<Longrightarrow>
   Row nm cy ly =
     bind_err (dec_sub c l) (\<lambda>d.
     bind_err (dec_ne l dec_zero) (\<lambda>nz.
     bind_err (if nz then bind_err (dec_mul c l) (\<lambda>m. dec_ge m dec_zero) else Inr False) (\<lambda>cond.
     bind_err (if cond then bind_err (dec_div d l) (\<lambda>q. Inr (Some q)) else Inr None) (\<lambda>r.
     Inr \<lparr>name = nm, current_year = Some c, last_year = Some l,
          difference = Some d, ratio = r\<rparr>))))"
  by (simp add: Row_def)

lemma dec_ne_eq: "dec_ne l z = Inr nz \<Longrightarrow> dec_eq l z = Inr (\<not> nz)"
  by (auto simp: dec_ne_def bind_err_eq_Inr)

lemma dec_ge_lt: "dec_ge m z = Inr b \<Longrightarrow> dec_lt m z = Inr (\<not> b)"
  by (auto simp: dec_ge_def dec_lt_def split: if_splits)

section \<open>Row derivation\<close>

text \<open>
  What a constructed row holds when both raw values parse.  All operations and
  comparisons are those of the decimal context.
\<close>

lemma Row_returned:
  assumes "safe_decimal cy = Some c" and "safe_decimal ly = Some l"
    and "Row nm cy ly = Inr r"
  shows "\<exists>d. dec_sub c l = Inr d \<and> difference r = Some d
           \<and> current_year r = Some c \<and> last_year r = Some l
           \<and> (if dec_eq l dec_zero = Inr True
                  \<or> (\<exists>m. dec_mul c l = Inr m \<and> dec_lt m dec_zero = Inr True)
               then ratio r = None
               else \<exists>q. dec_div d l = Inr q \<and> ratio r = Some q)"
proof -
  from assms obtain d nz cond rt where
    d: "dec_sub c l = Inr d" and nz: "dec_ne l dec_zero = Inr nz"
    and cond: "(if nz then bind_err (dec_mul c l) (\<lambda>m. dec_ge m dec_zero) else Inr False) = Inr cond"
    and rt: "(if cond then bind_err (dec_div d l) (\<lambda>q. Inr (Some q)) else Inr None) = Inr rt"
    and r: "r = \<lparr>name = nm, current_year = Some c, last_year = Some l,
                 difference = Some d, ratio = rt\<rparr>"
    by (auto simp: Row_parsed bind_err_eq_Inr)
  have eq: "dec_eq l dec_zero = Inr (\<not> nz)"
    using nz by (rule dec_ne_eq)
  show ?thesis
  proof (cases nz)
    case False
    with cond rt eq d r show ?thesis by auto
  next
    case True
    with cond obtain m where m: "dec_mul c l = Inr m" and ge: "dec_ge m dec_zero = Inr cond"
      by (auto simp: bind_err_eq_Inr)
    have lt: "dec_lt m dec_zero = Inr (\<not> cond)"
      using ge by (rule dec_ge_lt)
    show ?thesis
    proof (cases cond)
      case True
      with rt obtain q where "dec_div d l = Inr q" and "rt = Some q"
        by (auto simp: bind_err_eq_Inr)
      with True \<open>nz\<close> eq m lt d r show ?thesis by auto
    next
      case False
      with rt have "rt = None" by simp
      with False m lt d r show ?thesis by auto
    qed
  qed
qed

lemma parse_300: "Decimal_from_str (codepoints ''300'') = Some (Finite False 300 0)"
  by (simp add: parse_eval)

lemma parse_100: "Decimal_from_str (codepoints ''100'') = Some (Finite False 100 0)"
  by (simp add: parse_eval)

lemma Row_300_100:
  "Row ''revenue'' (RStr (codepoints ''300'')) (RStr (codepoints ''100'')) =
     Inr \<lparr>name = ''revenue'', current_year = Some (Finite False 300 0),
          last_year = Some (Finite False 100 0), difference = Some (Finite False 200 0),
          ratio = Some (Finite False 2 0)\<rparr>"
  by (simp add: Row_def safe_decimal_def parse_300 parse_100 dec_eval)

text \<open>
  C8.  When at least one of the two raw period values fails to parse, the row is built
  with missing difference and missing change ratio, and both are formatted as the empty
  string, so that the tabular output shows two empty fields.
\<close>

theorem C8_missing_propagation:
  assumes "safe_decimal cy = None \<or> safe_decimal ly = None"
  shows "\<exists>r. Row nm cy ly = Inr r \<and> difference r = None \<and> ratio r = None
           \<and> format_decimal (difference r) False True = []
           \<and> format_decimal (ratio r) True True = []
           \<and> csv_line r ! 3 = [] \<and> csv_line r ! 4 = []"
  using Row_unparseable [OF assms, of nm]
  by (simp add: format_decimal_def csv_line_def)

lemma parse_na: "Decimal_from_str (codepoints ''n/a'') = None"
  by (simp add: parse_eval)

theorem C8_missing_propagation_witness:
  "(safe_decimal (RStr (codepoints ''n/a'')) = None \<or> safe_decimal (RStr (codepoints ''100'')) = None)
   \<and> (\<exists>r. Row ''revenue'' (RStr (codepoints ''n/a'')) (RStr (codepoints ''100'')) = Inr r
          \<and> difference r = None \<and> ratio r = None
          \<and> format_decimal (difference r) False True = []
          \<and> format_decimal (ratio r) True True = []
          \<and> csv_line r ! 3 = [] \<and> csv_line r ! 4 = [])"
proof -
  have h: "safe_decimal (RStr (codepoints ''n/a'')) = None \<or> safe_decimal (RStr (codepoints ''100'')) = None"
    by (simp add: safe_decimal_def parse_na)
  show ?thesis
    by (rule conjI [OF h C8_missing_propagation [OF h]])
qed

section \<open>Faults in row construction\<close>

lemma dec_fix_err: "dec_fix d = Inl e \<Longrightarrow> e = Overflow"
  by (cases d) (auto simp: dec_fix_def Let_def split: if_splits)

lemma dec_fix_finite: "dec_fix (Finite s c ex) = Inr d \<Longrightarrow> is_finite d"
  by (auto simp: dec_fix_def Let_def is_finite_def split: if_splits)

lemma check_nans_finite [simp]: "check_nans (Finite s1 c1 e1) (Finite s2 c2 e2) = None"
  by (simp add: check_nans_def is_snan_def is_nan_def)

lemma check_nans_err: "check_nans x y = Some (Inl e) \<Longrightarrow> e = InvalidOperation"
  by (cases x; cases y) (auto simp: check_nans_def is_snan_def is_nan_def dec_fix_def split: if_splits)

lemma dec_add_err: "dec_add x y = Inl e \<Longrightarrow> e = InvalidOperation \<or> e = Overflow"
  by (cases x; cases y)
     (auto simp: dec_add_def Let_def dest: check_nans_err dec_fix_err split: option.splits if_splits)

lemma dec_sub_err: "dec_sub x y = Inl e \<Longrightarrow> e = InvalidOperation \<or> e = Overflow"
  by (auto simp: dec_sub_def dest: check_nans_err dec_add_err split: option.splits)

lemma dec_mul_err: "dec_mul x y = Inl e \<Longrightarrow> e = InvalidOperation \<or> e = Overflow"
  by (cases x; cases y)
     (auto simp: dec_mul_def dest: check_nans_err dec_fix_err split: option.splits if_splits)

lemma dec_ne_err: "dec_ne x y = Inl e \<Longrightarrow> e = InvalidOperation"
  by (auto simp: dec_ne_def dec_eq_def bind_err_eq_Inl split: if_splits)

lemma dec_ge_err: "dec_ge x y = Inl e \<Longrightarrow> e = InvalidOperation"
  by (auto simp: dec_ge_def split: if_splits)

lemma dec_ne_zero_coeff: "dec_ne (Finite s 0 ex) dec_zero = Inr False"
  by (simp add: dec_ne_def dec_eq_def dec_cmp_def dec_zero_def is_snan_def is_nan_def scaled_def)

lemma dec_div_err:
  "dec_div x y = Inl e \<Longrightarrow> dec_ne y dec_zero = Inr True \<Longrightarrow> e = InvalidOperation \<or> e = Overflow"
  by (cases x; cases y)
     (auto simp: dec_div_def Let_def dec_ne_zero_coeff dest: check_nans_err dec_fix_err
        split: option.splits if_splits)

lemma dec_add_finite:
  "dec_add (Finite s1 c1 e1) (Finite s2 c2 e2) = Inl e \<Longrightarrow> e = Overflow"
  "dec_add (Finite s1 c1 e1) (Finite s2 c2 e2) = Inr d \<Longrightarrow> is_finite d"
  by (auto simp: dec_add_def Let_def dest: dec_fix_err dec_fix_finite split: if_splits)

lemma dec_sub_finite:
  "dec_sub (Finite s1 c1 e1) (Finite s2 c2 e2) = Inl e \<Longrightarrow> e = Overflow"
  "dec_sub (Finite s1 c1 e1) (Finite s2 c2 e2) = Inr d \<Longrightarrow> is_finite d"
  by (auto simp: dec_sub_def copy_negate_def dest: dec_add_finite)

lemma dec_mul_finite:
  "dec_mul (Finite s1 c1 e1) (Finite s2 c2 e2) = Inl e \<Longrightarrow> e = Overflow"
  by (auto simp: dec_mul_def dest: dec_fix_err)

lemma dec_ne_finite: "\<exists>b. dec_ne (Finite s c ex) dec_zero = Inr b"
  by (simp add: dec_ne_def dec_eq_def dec_zero_def is_snan_def is_nan_def)

lemma dec_ge_finite: "is_finite m \<Longrightarrow> \<exists>b. dec_ge m dec_zero = Inr b"
  by (cases m) (simp_all add: dec_ge_def dec_zero_def is_nan_def is_finite_def)

lemma dec_div_finite:
  "dec_div (Finite s1 c1 e1) (Finite s2 c2 e2) = Inl e \<Longrightarrow>
   dec_ne (Finite s2 c2 e2) dec_zero = Inr True \<Longrightarrow> e = Overflow"
  by (auto simp: dec_div_def Let_def dec_ne_zero_coeff dest: dec_fix_err split: if_splits)

lemma Row_err:
  assumes "Row nm cy ly = Inl e"
  shows "e = InvalidOperation \<or> e = Overflow"
proof -
  from assms obtain c l where c: "safe_decimal cy = Some c" and l: "safe_decimal ly = Some l"
    by (auto simp: Row_def split: option.splits)
  from assms show ?thesis
    unfolding Row_parsed [OF c l]
    by (auto simp: bind_err_eq_Inl dest: dec_sub_err dec_ne_err dec_mul_err dec_ge_err dec_div_err
          split: if_splits)
qed

lemma dec_mul_finite_res:
  "dec_mul (Finite s1 c1 e1) (Finite s2 c2 e2) = Inr d \<Longrightarrow> is_finite d"
  by (auto simp: dec_mul_def dest: dec_fix_finite)

lemma Row_err_finite:
  assumes raised: "Row nm cy ly = Inl e"
    and c: "safe_decimal cy = Some (Finite s1 c1 e1)"
    and l: "safe_decimal ly = Some (Finite s2 c2 e2)"
  shows "e = Overflow"
proof (cases "dec_sub (Finite s1 c1 e1) (Finite s2 c2 e2)")
  case (Inl e')
  with raised show ?thesis
    by (auto simp: Row_parsed [OF c l] dest: dec_sub_finite)
next
  case (Inr d)
  then have "is_finite d" by (rule dec_sub_finite)
  then obtain s3 c3 e3 where d: "d = Finite s3 c3 e3"
    by (cases d) (simp_all add: is_finite_def)
  obtain nz where nz: "dec_ne (Finite s2 c2 e2) dec_zero = Inr nz"
    using dec_ne_finite by blast
  show ?thesis
  proof (cases nz)
    case False
    with raised Inr nz show ?thesis
      by (simp add: Row_parsed [OF c l])
  next
    case True
    show ?thesis
    proof (cases "dec_mul (Finite s1 c1 e1) (Finite s2 c2 e2)")
      case (Inl e')
      with raised \<open>nz\<close> nz \<open>dec_sub _ _ = Inr d\<close> show ?thesis
        by (auto simp: Row_parsed [OF c l] dest: dec_mul_finite)
    next
      case (Inr m)
      then have "is_finite m" by (rule dec_mul_finite_res)
      then obtain b where b: "dec_ge m dec_zero = Inr b"
        using dec_ge_finite by blast
      from raised \<open>nz\<close> nz \<open>dec_sub _ _ = Inr d\<close> Inr b
      have "b \<and> dec_div d (Finite s2 c2 e2) = Inl e"
        by (auto simp: Row_parsed [OF c l] bind_err_eq_Inl split: if_splits)
      with d nz \<open>nz\<close> show ?thesis
        by (auto dest: dec_div_finite)
    qed
  qed
qed

text \<open>
  C5 (as amended).  Constructing a row never raises when a raw value fails to parse: the
  row then has missing difference and ratio.  When both values parse, nothing catches an
  arithmetic fault: the construction either returns a row or raises what the decimal
  operation raised, which is InvalidOperation or Overflow, and Overflow alone when both
  values are finite numbers.
\<close>

theorem C5_row_construction_faults:
  "(safe_decimal cy = None \<or> safe_decimal ly = None \<longrightarrow>
      (\<exists>r. Row nm cy ly = Inr r \<and> difference r = None \<and> ratio r = None))
   \<and> (Row nm cy ly = Inl e \<longrightarrow>
        (\<exists>c l. safe_decimal cy = Some c \<and> safe_decimal ly = Some l)
        \<and> (e = InvalidOperation \<or> e = Overflow)
        \<and> (is_finite (the (safe_decimal cy)) \<and> is_finite (the (safe_decimal ly)) \<longrightarrow> e = Overflow))"
proof (intro conjI impI)
  assume "safe_decimal cy = None \<or> safe_decimal ly = None"
  then show "\<exists>r. Row nm cy ly = Inr r \<and> difference r = None \<and> ratio r = None"
    by (simp add: Row_unparseable)
next
  assume "Row nm cy ly = Inl e"
  then show "\<exists>c l. safe_decimal cy = Some c \<and> safe_decimal ly = Some l"
    by (auto simp: Row_def split: option.splits)
next
  assume "Row nm cy ly = Inl e"
  then show "e = InvalidOperation \<or> e = Overflow"
    by (rule Row_err)
next
  assume raised: "Row nm cy ly = Inl e"
    and fin: "is_finite (the (safe_decimal cy)) \<and> is_finite (the (safe_decimal ly))"
  from raised obtain c l where c: "safe_decimal cy = Some c" and l: "safe_decimal ly = Some l"
    by (auto simp: Row_def split: option.splits)
  with fin obtain s1 c1 e1 s2 c2 e2 where "c = Finite s1 c1 e1" and "l = Finite s2 c2 e2"
    by (cases c; cases l) (simp_all add: is_finite_def)
  with raised c l show "e = Overflow"
    by (auto dest: Row_err_finite)
qed

lemma parse_NaN: "Decimal_from_str (codepoints ''NaN'') = Some (QNaN False 0)"
  by (simp add: parse_eval)

lemma parse_1: "Decimal_from_str (codepoints ''1'') = Some (Finite False 1 0)"
  by (simp add: parse_eval)

text \<open>
  The claim C5 as stated fails: a current value \<^verbatim>\<open>NaN\<close> with prior value \<^verbatim>\<open>1\<close> parses, the
  test \<^verbatim>\<open>current * prior >= 0\<close> raises InvalidOperation, and no row is built.
\<close>

theorem C5_nan_row_raises:
  "Row ''revenue'' (RStr (codepoints ''NaN'')) (RStr (codepoints ''1'')) = Inl InvalidOperation"
  by (simp add: Row_def safe_decimal_def parse_NaN parse_1 dec_eval)

theorem C5_row_construction_faults_witness:
  "Row ''equity'' (RStr (codepoints ''9E999999'')) (RStr (codepoints ''-9E999999'')) = Inl Overflow
   \<and> (\<exists>c l. safe_decimal (RStr (codepoints ''9E999999'')) = Some c \<and> safe_decimal (RStr (codepoints ''-9E999999'')) = Some l)
   \<and> (safe_decimal (RStr (codepoints ''n/a'')) = None \<or> safe_decimal (RStr (codepoints ''100'')) = None)
   \<and> (\<exists>r. Row ''equity'' (RStr (codepoints ''n/a'')) (RStr (codepoints ''100'')) = Inr r \<and> difference r = None \<and> ratio r = None)"
proof -
  have p1: "Decimal_from_str (codepoints ''9E999999'') = Some (Finite False 9 999999)"
    by (simp add: parse_eval)
  have p2: "Decimal_from_str (codepoints ''-9E999999'') = Some (Finite True 9 999999)"
    by (simp add: parse_eval)
  have raised: "Row ''equity'' (RStr (codepoints ''9E999999'')) (RStr (codepoints ''-9E999999'')) = Inl Overflow"
    by (simp add: Row_def safe_decimal_def p1 p2 dec_eval)
  have h: "safe_decimal (RStr (codepoints ''n/a'')) = None \<or> safe_decimal (RStr (codepoints ''100'')) = None"
    by (simp add: safe_decimal_def parse_na)
  note thm1 = C5_row_construction_faults [of "RStr (codepoints ''9E999999'')" "RStr (codepoints ''-9E999999'')" "''equity''" Overflow]
  note thm2 = C5_row_construction_faults [of "RStr (codepoints ''n/a'')" "RStr (codepoints ''100'')" "''equity''" Overflow]
  from thm1 raised have a: "\<exists>c l. safe_decimal (RStr (codepoints ''9E999999'')) = Some c \<and> safe_decimal (RStr (codepoints ''-9E999999'')) = Some l"
    by blast
  from thm2 h have b: "\<exists>r. Row ''equity'' (RStr (codepoints ''n/a'')) (RStr (codepoints ''100'')) = Inr r \<and> difference r = None \<and> ratio r = None"
    by blast
  from raised a h b show ?thesis by blast
qed

text \<open>
  C1 (as amended).  For every pair of raw period values that both parse, the
  construction either raises the signal of a decimal operation and builds no row
  (InvalidOperation or Overflow, and Overflow alone when both values are finite numbers),
  or it builds a row whose difference is the decimal \<open>current - prior\<close> and whose change
  ratio is undefined (\<open>None\<close>) if \<open>prior == 0\<close> or \<open>current * prior < 0\<close>, and otherwise is the
  decimal quotient of the difference by the prior value.
\<close>

theorem C1_change_ratio:
  assumes c: "safe_decimal cy = Some c" and l: "safe_decimal ly = Some l"
  shows "case Row nm cy ly of
           Inl e \<Rightarrow> (e = InvalidOperation \<or> e = Overflow)
                    \<and> (is_finite c \<and> is_finite l \<longrightarrow> e = Overflow)
         | Inr r \<Rightarrow>
             \<exists>d. dec_sub c l = Inr d \<and> difference r = Some d
                \<and> current_year r = Some c \<and> last_year r = Some l
                \<and> (if dec_eq l dec_zero = Inr True
                       \<or> (\<exists>m. dec_mul c l = Inr m \<and> dec_lt m dec_zero = Inr True)
                    then ratio r = None
                    else \<exists>q. dec_div d l = Inr q \<and> ratio r = Some q)"
proof (cases "Row nm cy ly")
  case (Inl e)
  have "e = Overflow" if "is_finite c \<and> is_finite l"
  proof -
    from that obtain s1 c1 e1 s2 c2 e2 where "c = Finite s1 c1 e1" and "l = Finite s2 c2 e2"
      by (cases c; cases l) (simp_all add: is_finite_def)
    with Inl c l show ?thesis
      by (auto dest: Row_err_finite)
  qed
  with Row_err [OF Inl] Inl show ?thesis
    by simp
next
  case (Inr r)
  from Row_returned [OF c l Inr] Inr show ?thesis
    by simp
qed

text \<open>
  The claim C1 as stated fails: the values \<^verbatim>\<open>100\<close> and \<^verbatim>\<open>NaN\<close> both parse, the test
  \<^verbatim>\<open>current * prior >= 0\<close> raises InvalidOperation, and there is no row and no change ratio.
\<close>

theorem C1_nan_prior_raises:
  "safe_decimal (RStr (codepoints ''100'')) = Some (Finite False 100 0)
   \<and> safe_decimal (RStr (codepoints ''NaN'')) = Some (QNaN False 0)
   \<and> Row ''revenue'' (RStr (codepoints ''100'')) (RStr (codepoints ''NaN'')) = Inl InvalidOperation"
  by (simp add: Row_def safe_decimal_def parse_NaN parse_100 dec_eval)

theorem C1_change_ratio_witness:
  "safe_decimal (RStr (codepoints ''300'')) = Some (Finite False 300 0)
   \<and> safe_decimal (RStr (codepoints ''100'')) = Some (Finite False 100 0)
   \<and> Row ''revenue'' (RStr (codepoints ''300'')) (RStr (codepoints ''100'')) =
       Inr \<lparr>name = ''revenue'', current_year = Some (Finite False 300 0),
               last_year = Some (Finite False 100 0), difference = Some (Finite False 200 0),
               ratio = Some (Finite False 2 0)\<rparr>
   \<and> (\<exists>d. dec_sub (Finite False 300 0) (Finite False 100 0) = Inr d
          \<and> difference \<lparr>name = ''revenue'', current_year = Some (Finite False 300 0),
               last_year = Some (Finite False 100 0), difference = Some (Finite False 200 0),
               ratio = Some (Finite False 2 0)\<rparr> = Some d
          \<and> (if dec_eq (Finite False 100 0) dec_zero = Inr True
                 \<or> (\<exists>m. dec_mul (Finite False 300 0) (Finite False 100 0) = Inr m
                        \<and> dec_lt m dec_zero = Inr True)
              then ratio \<lparr>name = ''revenue'', current_year = Some (Finite False 300 0),
               last_year = Some (Finite False 100 0), difference = Some (Finite False 200 0),
               ratio = Some (Finite False 2 0)\<rparr> = None
              else \<exists>q. dec_div d (Finite False 100 0) = Inr q
                     \<and> ratio \<lparr>name = ''revenue'', current_year = Some (Finite False 300 0),
               last_year = Some (Finite False 100 0), difference = Some (Finite False 200 0),
               ratio = Some (Finite False 2 0)\<rparr> = Some q))"
proof -
  have h1: "safe_decimal (RStr (codepoints ''300'')) = Some (Finite False 300 0)"
    by (simp add: safe_decimal_def parse_300)
  have h2: "safe_decimal (RStr (codepoints ''100'')) = Some (Finite False 100 0)"
    by (simp add: safe_decimal_def parse_100)
  note h3 = Row_300_100
  from C1_change_ratio [OF h1 h2, of "''revenue''"]
  have "\<exists>d. dec_sub (Finite False 300 0) (Finite False 100 0) = Inr d
          \<and> difference \<lparr>name = ''revenue'', current_year = Some (Finite False 300 0),
               last_year = Some (Finite False 100 0), difference = Some (Finite False 200 0),
               ratio = Some (Finite False 2 0)\<rparr> = Some d
          \<and> (if dec_eq (Finite False 100 0) dec_zero = Inr True
                 \<or> (\<exists>m. dec_mul (Finite False 300 0) (Finite False 100 0) = Inr m
                        \<and> dec_lt m dec_zero = Inr True)
              then ratio \<lparr>name = ''revenue'', current_year = Some (Finite False 300 0),
               last_year = Some (Finite False 100 0), difference = Some (Finite False 200 0),
               ratio = Some (Finite False 2 0)\<rparr> = None
              else \<exists>q. dec_div d (Finite False 100 0) = Inr q
                     \<and> ratio \<lparr>name = ''revenue'', current_year = Some (Finite False 300 0),
               last_year = Some (Finite False 100 0), difference = Some (Finite False 200 0),
               ratio = Some (Finite False 2 0)\<rparr> = Some q)"
    unfolding h3 sum.case by blast
  with h1 h2 h3 show ?thesis
    by (intro conjI)
qed

section \<open>Lookup by name\<close>

lemma default_index_nonneg: "DEFAULT_COLUMN_ROW_INDEX k = Some (Some i) \<Longrightarrow> 0 \<le> i"
  by (simp add: DEFAULT_COLUMN_ROW_INDEX_def split: if_splits)

lemma step_index_nonneg:
  assumes "additional_row_step t entry = Inr t'"
    and "\<And>k i. row_name_index_dict t k = Some (Some i) \<Longrightarrow> 0 \<le> i"
    and "row_name_index_dict t' k = Some (Some i)"
  shows "0 \<le> i"
  using assms
  by (cases entry)
     (auto simp: additional_row_step_def bind_err_eq_Inr split: sum.splits if_splits)

lemma generate_from_index_nonneg:
  "generate_from es t = Inr t' \<Longrightarrow>
   (\<And>k i. row_name_index_dict t k = Some (Some i) \<Longrightarrow> 0 \<le> i) \<Longrightarrow>
   row_name_index_dict t' k = Some (Some i) \<Longrightarrow> 0 \<le> i"
proof (induction es arbitrary: t)
  case Nil
  then show ?case by simp
next
  case (Cons entry es)
  from Cons.prems(1) obtain t1 where
    step: "additional_row_step t entry = Inr t1" and rest: "generate_from es t1 = Inr t'"
    by (auto simp: bind_err_eq_Inr)
  have "\<And>k i. row_name_index_dict t1 k = Some (Some i) \<Longrightarrow> 0 \<le> i"
    using step Cons.prems(2) by (rule step_index_nonneg)
  then show ?case
    using Cons.IH [OF rest _ Cons.prems(3)] by blast
qed

lemma table_state_index_nonneg:
  "table_state t \<Longrightarrow> row_name_index_dict t k = Some (Some i) \<Longrightarrow> 0 \<le> i"
proof (induction arbitrary: k i rule: table_state.induct)
  case new_table
  then show ?case by (simp add: Table_def default_index_nonneg)
next
  case (added t r)
  then show ?case by (simp add: add_row_def)
next
  case (generated t t')
  show ?case
    using generate_from_index_nonneg [OF generated.hyps(2) [unfolded generate_additional_rows_def] _ generated.prems]
      generated.IH by blast
qed

text \<open>
  C6.  In every table that the program can hold, a lookup never raises: it returns the
  row at the mapped index when the name is mapped to an index below the number of rows,
  and nothing when the name is not mapped (or mapped to \<^verbatim>\<open>None\<close>) or the index is not
  below the number of rows.
\<close>

theorem C6_lookup_in_bounds:
  assumes "table_state t"
  shows "get_row_by_name t nm =
           Inr (case dict_get (row_name_index_dict t) nm of
                  None \<Rightarrow> None
                | Some i \<Rightarrow> if i < int (length (rows t)) then Some (rows t ! nat i) else None)
         \<and> (\<forall>r. get_row_by_name t nm = Inr (Some r) \<longrightarrow>
               (\<exists>i. row_name_index_dict t nm = Some (Some i) \<and> 0 \<le> i
                    \<and> nat i < length (rows t) \<and> r = rows t ! nat i))
         \<and> get_row_by_name t nm \<noteq> Inl IndexError"
proof -
  have nonneg: "0 \<le> i" if "dict_get (row_name_index_dict t) nm = Some i" for i
    using that table_state_index_nonneg [OF assms, of nm i]
    by (auto simp: dict_get_def split: option.splits)
  have eq: "get_row_by_name t nm =
           Inr (case dict_get (row_name_index_dict t) nm of
                  None \<Rightarrow> None
                | Some i \<Rightarrow> if i < int (length (rows t)) then Some (rows t ! nat i) else None)"
    using nonneg
    by (auto simp: get_row_by_name_def list_getitem_def Let_def split: option.splits)
  have "\<exists>i. row_name_index_dict t nm = Some (Some i) \<and> 0 \<le> i
             \<and> nat i < length (rows t) \<and> r = rows t ! nat i"
    if "get_row_by_name t nm = Inr (Some r)" for r
    using that nonneg unfolding eq
    by (auto simp: dict_get_def split: option.splits if_splits)
  with eq show ?thesis by simp
qed

theorem C6_lookup_in_bounds_witness:
  "table_state (add_row Table \<lparr>name = ''Sales'', current_year = None, last_year = None,
                                 difference = None, ratio = None\<rparr>)
   \<and> get_row_by_name (add_row Table \<lparr>name = ''Sales'', current_year = None, last_year = None,
                                 difference = None, ratio = None\<rparr>) ''revenue'' = Inr None"
proof -
  have st: "table_state (add_row Table \<lparr>name = ''Sales'', current_year = None,
                last_year = None, difference = None, ratio = None\<rparr>)"
    by (rule table_state.added [OF table_state.new_table])
  have "get_row_by_name (add_row Table \<lparr>name = ''Sales'', current_year = None,
            last_year = None, difference = None, ratio = None\<rparr>) ''revenue'' = Inr None"
    using C6_lookup_in_bounds [OF st, of "''revenue''"]
    by (simp add: add_row_def Table_def DEFAULT_COLUMN_ROW_INDEX_def dict_get_def)
  with st show ?thesis by simp
qed

section \<open>The narrative report\<close>

lemma dec_ge_zero_coeff: "dec_ge (Finite s 0 ex) dec_zero = Inr True"
  by (simp add: dec_ge_def dec_cmp_def dec_zero_def is_nan_def scaled_def)

lemma words_differ: "''an increase'' \<noteq> ''a decrease''"
  by simp
lemma change_type_decrease:  "change_type r = Inr ''a decrease'' \<longleftrightarrow>
        (\<exists>d. difference r = Some d \<and> dec_lt d dec_zero = Inr True)"
proof (cases "difference r")
  case None
  then show ?thesis by (simp add: change_type_def)
next
  case (Some d)
  show ?thesis
  proof (cases "is_nan d \<or> is_nan dec_zero")
    case True
    with Some show ?thesis by (simp add: change_type_def dec_ge_def dec_lt_def)
  next
    case False
    with Some have "change_type r = Inr (if 0 \<le> dec_cmp d dec_zero then ''an increase'' else ''a decrease'')"
      by (simp add: change_type_def dec_ge_def)
    moreover from False have "dec_lt d dec_zero = Inr (dec_cmp d dec_zero < 0)"
      by (simp add: dec_lt_def)
    ultimately show ?thesis
      using Some words_differ by (cases "0 \<le> dec_cmp d dec_zero") (simp_all add: not_le)
  qed
qed

lemma write_rows_extends: "\<exists>ys. fst (write_rows t nms out) = out @ ys"
proof (induction nms arbitrary: out)
  case Nil
  then show ?case by simp
next
  case (Cons nm nms)
  show ?case
  proof (cases "get_row_by_name t nm")
    case (Inl e)
    then show ?thesis by simp
  next
    case (Inr found)
    show ?thesis
    proof (cases found)
      case None
      with Inr Cons.IH [of out] show ?thesis by simp
    next
      case (Some r)
      show ?thesis
      proof (cases "change_type r")
        case (Inl e)
        with Inr Some show ?thesis by simp
      next
        case ct: (Inr ct)
        show ?thesis
        proof (cases "ratio_flag r")
          case (Inl e)
          with Inr Some ct show ?thesis by simp
        next
          case flag: (Inr b)
          from Cons.IH [of "out @ [report_paragraph nm r ct] @ (if b then [RATIO_WARNING] else [])"]
          obtain ys where "fst (write_rows t nms
              (out @ [report_paragraph nm r ct] @ (if b then [RATIO_WARNING] else []))) =
              (out @ [report_paragraph nm r ct] @ (if b then [RATIO_WARNING] else [])) @ ys"
            by blast
          with Inr Some ct flag show ?thesis by simp
        qed
      qed
    qed
  qed
qed

lemma paragraph_written_first:
  assumes "get_row_by_name t nm = Inr (Some r)" and "change_type r = Inr ct"
  shows "length out < length (fst (write_rows t (nm # nms) out))
         \<and> fst (write_rows t (nm # nms) out) ! length out = report_paragraph nm r ct
         \<and> take (length out) (fst (write_rows t (nm # nms) out)) = out"
proof (cases "ratio_flag r")
  case (Inl e)
  with assms show ?thesis by (simp add: nth_append)
next
  case (Inr b)
  from write_rows_extends [of t nms "out @ [report_paragraph nm r ct] @ (if b then [RATIO_WARNING] else [])"]
  obtain ys where "fst (write_rows t nms
      (out @ [report_paragraph nm r ct] @ (if b then [RATIO_WARNING] else []))) =
      (out @ [report_paragraph nm r ct] @ (if b then [RATIO_WARNING] else [])) @ ys"
    by blast
  with assms Inr show ?thesis by (simp add: nth_append)
qed

lemma paragraph_written:
  "snd (write_rows t nms out) = None \<Longrightarrow> nm \<in> set nms \<Longrightarrow>
   get_row_by_name t nm = Inr (Some r) \<Longrightarrow> change_type r = Inr ct \<Longrightarrow>
   report_paragraph nm r ct \<in> set (fst (write_rows t nms out))"
proof (induction nms arbitrary: out)
  case Nil
  then show ?case by simp
next
  case (Cons n nms)
  show ?case
  proof (cases "n = nm")
    case True
    from paragraph_written_first [OF Cons.prems(3,4), of out nms] True show ?thesis
      by (metis nth_mem)
  next
    case False
    with Cons.prems(2) have mem: "nm \<in> set nms" by simp
    show ?thesis
    proof (cases "get_row_by_name t n")
      case (Inl e)
      with Cons.prems(1) show ?thesis by simp
    next
      case (Inr found)
      show ?thesis
      proof (cases found)
        case None
        with Inr Cons.prems(1) Cons.IH [OF _ mem Cons.prems(3,4), of out] show ?thesis
          by simp
      next
        case (Some r')
        show ?thesis
        proof (cases "change_type r'")
          case (Inl e)
          with Inr Some Cons.prems(1) show ?thesis by simp
        next
          case ct': (Inr ct')
          show ?thesis
          proof (cases "ratio_flag r'")
            case (Inl e)
            with Inr Some ct' Cons.prems(1) show ?thesis by simp
          next
            case (Inr b)
            with \<open>get_row_by_name t n = Inr found\<close> Some ct' Cons.prems(1)
              Cons.IH [OF _ mem Cons.prems(3,4),
                of "out @ [report_paragraph n r' ct'] @ (if b then [RATIO_WARNING] else [])"]
            show ?thesis by simp
          qed
        qed
      qed
    qed
  qed
qed

lemma written_origin:
  "x \<in> set (fst (write_rows t nms out)) \<Longrightarrow>
   x \<in> set out \<or> x = RATIO_WARNING
   \<or> (\<exists>nm r ct. nm \<in> set nms \<and> get_row_by_name t nm = Inr (Some r)
         \<and> change_type r = Inr ct \<and> x = report_paragraph nm r ct)"
proof (induction nms arbitrary: out)
  case Nil
  then show ?case by simp
next
  case (Cons n nms)
  show ?case
  proof (cases "get_row_by_name t n")
    case (Inl e)
    with Cons.prems show ?thesis by simp
  next
    case (Inr found)
    show ?thesis
    proof (cases found)
      case None
      with Inr Cons.prems Cons.IH [of out] show ?thesis by auto
    next
      case (Some r')
      show ?thesis
      proof (cases "change_type r'")
        case (Inl e)
        with Inr Some Cons.prems show ?thesis by simp
      next
        case ct': (Inr ct')
        show ?thesis
        proof (cases "ratio_flag r'")
          case (Inl e)
          with Inr Some ct' Cons.prems show ?thesis by auto
        next
          case flag: (Inr b)
          with Inr Some ct' Cons.prems
          have "x \<in> set (fst (write_rows t nms
                  (out @ [report_paragraph n r' ct'] @ (if b then [RATIO_WARNING] else []))))"
            by simp
          from Cons.IH [OF this] Inr Some ct' show ?thesis
            by (auto split: if_splits)
        qed
      qed
    qed
  qed
qed

lemma change_type_words:
  "change_type r = Inr ct \<Longrightarrow> ct = ''an increase'' \<or> ct = ''a decrease''"
  by (auto simp: change_type_def bind_err_eq_Inr split: option.splits if_splits)

text \<open>
  C10.  In the narrative report a row whose difference is a zero (of either sign and any
  exponent) is written with the direction \<^verbatim>\<open>an increase\<close>: its paragraph, which begins
  \<^verbatim>\<open>Wokki Company has seen an increase in\<close>, is the first thing written when the row is the
  revenue row, and it is among the paragraphs written for any reported name when the
  report runs to its end.  Every paragraph written is that of a reported name with the
  direction of its row, and the direction is \<^verbatim>\<open>a decrease\<close> exactly when the difference is
  less than zero.
\<close>

theorem C10_zero_difference_is_increase:
  "(get_row_by_name t ''revenue'' = Inr (Some r) \<and> difference r = Some (Finite s 0 ex) \<longrightarrow>
      fst (write_text_report t) \<noteq> []
      \<and> fst (write_text_report t) ! 0 = report_paragraph ''revenue'' r ''an increase'')
   \<and> (nm \<in> set REPORT_NAMES \<and> get_row_by_name t nm = Inr (Some r)
        \<and> difference r = Some (Finite s 0 ex) \<and> snd (write_text_report t) = None \<longrightarrow>
      report_paragraph nm r ''an increase'' \<in> set (fst (write_text_report t)))
   \<and> (x \<in> set (fst (write_text_report t)) \<longrightarrow>
        x = RATIO_WARNING
        \<or> (\<exists>n r' ct. n \<in> set REPORT_NAMES \<and> get_row_by_name t n = Inr (Some r')
              \<and> change_type r' = Inr ct \<and> x = report_paragraph n r' ct
              \<and> (ct = ''an increase'' \<or> ct = ''a decrease'')
              \<and> (ct = ''a decrease'' \<longleftrightarrow>
                   (\<exists>d. difference r' = Some d \<and> dec_lt d dec_zero = Inr True))))
   \<and> take 38 (report_paragraph nm r ''an increase'') = ''Wokki Company has seen an increase in ''"
proof (intro conjI impI; (elim conjE)?)
  assume found: "get_row_by_name t ''revenue'' = Inr (Some r)"
    and zero: "difference r = Some (Finite s 0 ex)"
  from zero have ct: "change_type r = Inr ''an increase''"
    by (simp add: change_type_def dec_ge_zero_coeff)
  from paragraph_written_first [OF found ct, of "[]" "tl REPORT_NAMES"]
  show "fst (write_text_report t) \<noteq> []"
    and "fst (write_text_report t) ! 0 = report_paragraph ''revenue'' r ''an increase''"
    by (auto simp: write_text_report_def REPORT_NAMES_def)
next
  assume "nm \<in> set REPORT_NAMES" and found: "get_row_by_name t nm = Inr (Some r)"
    and zero: "difference r = Some (Finite s 0 ex)"
    and "snd (write_text_report t) = None"
  moreover from zero have "change_type r = Inr ''an increase''"
    by (simp add: change_type_def dec_ge_zero_coeff)
  ultimately show "report_paragraph nm r ''an increase'' \<in> set (fst (write_text_report t))"
    unfolding write_text_report_def by (intro paragraph_written)
next
  assume "x \<in> set (fst (write_text_report t))"
  from written_origin [OF this [unfolded write_text_report_def]]
  consider "x = RATIO_WARNING"
    | n r' ct where "n \<in> set REPORT_NAMES" and "get_row_by_name t n = Inr (Some r')"
        and "change_type r' = Inr ct" and "x = report_paragraph n r' ct"
    by auto
  then show "x = RATIO_WARNING
        \<or> (\<exists>n r' ct. n \<in> set REPORT_NAMES \<and> get_row_by_name t n = Inr (Some r')
              \<and> change_type r' = Inr ct \<and> x = report_paragraph n r' ct
              \<and> (ct = ''an increase'' \<or> ct = ''a decrease'')
              \<and> (ct = ''a decrease'' \<longleftrightarrow>
                   (\<exists>d. difference r' = Some d \<and> dec_lt d dec_zero = Inr True)))"
  proof cases
    case 1
    then show ?thesis by simp
  next
    case (2 n r' ct)
    from change_type_words [OF 2(3)] change_type_decrease [of r'] 2(3)
    have "(ct = ''an increase'' \<or> ct = ''a decrease'')
          \<and> (ct = ''a decrease'' \<longleftrightarrow>
               (\<exists>d. difference r' = Some d \<and> dec_lt d dec_zero = Inr True))"
      by auto
    with 2 show ?thesis by blast
  qed
next
  show "take 38 (report_paragraph nm r ''an increase'') = ''Wokki Company has seen an increase in ''"
    by (simp add: report_paragraph_def COMPANY_NAME_def)
qed

lemma report_of_flat_revenue:
  "get_row_by_name (add_row (add_row Table
       \<lparr>name = ''Income statement'', current_year = None, last_year = None,
          difference = None, ratio = None\<rparr>)
       \<lparr>name = ''Revenue'', current_year = Some (Finite False 100 0),
          last_year = Some (Finite False 100 0), difference = Some (Finite False 0 0),
          ratio = Some (Finite False 0 0)\<rparr>) ''revenue'' =
     Inr (Some \<lparr>name = ''Revenue'', current_year = Some (Finite False 100 0),
        last_year = Some (Finite False 100 0), difference = Some (Finite False 0 0),
        ratio = Some (Finite False 0 0)\<rparr>)"
  "write_text_report (add_row (add_row Table
       \<lparr>name = ''Income statement'', current_year = None, last_year = None,
          difference = None, ratio = None\<rparr>)
       \<lparr>name = ''Revenue'', current_year = Some (Finite False 100 0),
          last_year = Some (Finite False 100 0), difference = Some (Finite False 0 0),
          ratio = Some (Finite False 0 0)\<rparr>) =
     ([report_paragraph ''revenue'' \<lparr>name = ''Revenue'', current_year = Some (Finite False 100 0),
        last_year = Some (Finite False 100 0), difference = Some (Finite False 0 0),
        ratio = Some (Finite False 0 0)\<rparr> ''an increase''], None)"
  by (simp_all add: write_text_report_def REPORT_NAMES_def get_row_by_name_def dict_get_def
        list_getitem_def add_row_def Table_def DEFAULT_COLUMN_ROW_INDEX_def change_type_def
        ratio_flag_def dec_ge_zero_coeff dec_bool_def is_zero_def)

theorem C10_zero_difference_is_increase_witness:
  "''revenue'' \<in> set REPORT_NAMES
   \<and> get_row_by_name (add_row (add_row Table
       \<lparr>name = ''Income statement'', current_year = None, last_year = None,
          difference = None, ratio = None\<rparr>)
       \<lparr>name = ''Revenue'', current_year = Some (Finite False 100 0),
          last_year = Some (Finite False 100 0), difference = Some (Finite False 0 0),
          ratio = Some (Finite False 0 0)\<rparr>) ''revenue'' =
       Inr (Some \<lparr>name = ''Revenue'', current_year = Some (Finite False 100 0),
        last_year = Some (Finite False 100 0), difference = Some (Finite False 0 0),
        ratio = Some (Finite False 0 0)\<rparr>)
   \<and> difference \<lparr>name = ''Revenue'', current_year = Some (Finite False 100 0),
        last_year = Some (Finite False 100 0), difference = Some (Finite False 0 0),
        ratio = Some (Finite False 0 0)\<rparr> = Some (Finite False 0 0)
   \<and> snd (write_text_report (add_row (add_row Table
       \<lparr>name = ''Income statement'', current_year = None, last_year = None,
          difference = None, ratio = None\<rparr>)
       \<lparr>name = ''Revenue'', current_year = Some (Finite False 100 0),
          last_year = Some (Finite False 100 0), difference = Some (Finite False 0 0),
          ratio = Some (Finite False 0 0)\<rparr>)) = None
   \<and> fst (write_text_report (add_row (add_row Table
       \<lparr>name = ''Income statement'', current_year = None, last_year = None,
          difference = None, ratio = None\<rparr>)
       \<lparr>name = ''Revenue'', current_year = Some (Finite False 100 0),
          last_year = Some (Finite False 100 0), difference = Some (Finite False 0 0),
          ratio = Some (Finite False 0 0)\<rparr>)) \<noteq> []
   \<and> fst (write_text_report (add_row (add_row Table
       \<lparr>name = ''Income statement'', current_year = None, last_year = None,
          difference = None, ratio = None\<rparr>)
       \<lparr>name = ''Revenue'', current_year = Some (Finite False 100 0),
          last_year = Some (Finite False 100 0), difference = Some (Finite False 0 0),
          ratio = Some (Finite False 0 0)\<rparr>)) ! 0 =
       report_paragraph ''revenue'' \<lparr>name = ''Revenue'', current_year = Some (Finite False 100 0),
        last_year = Some (Finite False 100 0), difference = Some (Finite False 0 0),
        ratio = Some (Finite False 0 0)\<rparr> ''an increase''
   \<and> report_paragraph ''revenue'' \<lparr>name = ''Revenue'', current_year = Some (Finite False 100 0),
        last_year = Some (Finite False 100 0), difference = Some (Finite False 0 0),
        ratio = Some (Finite False 0 0)\<rparr> ''an increase''
       \<in> set (fst (write_text_report (add_row (add_row Table
       \<lparr>name = ''Income statement'', current_year = None, last_year = None,
          difference = None, ratio = None\<rparr>)
       \<lparr>name = ''Revenue'', current_year = Some (Finite False 100 0),
          last_year = Some (Finite False 100 0), difference = Some (Finite False 0 0),
          ratio = Some (Finite False 0 0)\<rparr>)))"
proof -
  let ?R = "\<lparr>name = ''Revenue'', current_year = Some (Finite False 100 0),
        last_year = Some (Finite False 100 0), difference = Some (Finite False 0 0),
        ratio = Some (Finite False 0 0)\<rparr>"
  let ?T = "(add_row (add_row Table
       \<lparr>name = ''Income statement'', current_year = None, last_year = None,
          difference = None, ratio = None\<rparr>)
       \<lparr>name = ''Revenue'', current_year = Some (Finite False 100 0),
          last_year = Some (Finite False 100 0), difference = Some (Finite False 0 0),
          ratio = Some (Finite False 0 0)\<rparr>)"
  have h1: "''revenue'' \<in> set REPORT_NAMES"
    by (simp add: REPORT_NAMES_def)
  have h2: "get_row_by_name ?T ''revenue'' = Inr (Some ?R)"
    by (rule report_of_flat_revenue(1))
  have h3: "difference ?R = Some (Finite False 0 0)"
    by simp
  have h4: "snd (write_text_report ?T) = None"
    by (simp add: report_of_flat_revenue(2))
  note inst = C10_zero_difference_is_increase [of ?T ?R False 0 "''revenue''"]
  from inst h2 h3 have first: "fst (write_text_report ?T) \<noteq> []
     \<and> fst (write_text_report ?T) ! 0 = report_paragraph ''revenue'' ?R ''an increase''"
    by blast
  from inst h1 h2 h3 h4
  have mem: "report_paragraph ''revenue'' ?R ''an increase'' \<in> set (fst (write_text_report ?T))"
    by blast
  from h1 h2 h3 h4 first mem show ?thesis
    by blast
qed

section \<open>Derived rows: one round of the loop\<close>

lemma parse_empty: "Decimal_from_str [] = None"
  by (simp add: parse_eval)

lemma Row_fallback:
  "Row nm (RStr []) (RStr []) =
     Inr \<lparr>name = nm, current_year = None, last_year = None, difference = None, ratio = None\<rparr>"
  using Row_unparseable [of "RStr []" "RStr []" nm]
  by (simp add: safe_decimal_def parse_empty)

lemma Row_fields:
  assumes "Row nm cy ly = Inr r"
  shows "name r = nm" and "current_year r = safe_decimal cy" and "last_year r = safe_decimal ly"
proof -
  have "name r = nm \<and> current_year r = safe_decimal cy \<and> last_year r = safe_decimal ly"
  proof (cases "safe_decimal cy = None \<or> safe_decimal ly = None")
    case True
    from Row_unparseable [OF True, of nm] assms show ?thesis by auto
  next
    case False
    then obtain c l where c: "safe_decimal cy = Some c" and l: "safe_decimal ly = Some l"
      by auto
    from assms show ?thesis
      unfolding Row_parsed [OF c l] using c l by (auto simp: bind_err_eq_Inr)
  qed
  then show "name r = nm" and "current_year r = safe_decimal cy"
    and "last_year r = safe_decimal ly"
    by simp_all
qed


lemma step_success:
  assumes "get_values_from_lambda_tuple t func args = Inr v"
    and "Row nm (RDec (fst v)) (RDec (snd v)) = Inr r"
  shows "additional_row_step t (nm, func, args) =
           Inr (t\<lparr>rows := rows t @ [r],
                  row_name_index_dict :=
                    (row_name_index_dict t)(index_key nm := Some (Some (int (length (rows t)))))\<rparr>)"
  using assms by (simp add: additional_row_step_def)

lemma step_fallback:
  assumes "bind_err (get_values_from_lambda_tuple t func args)
             (\<lambda>v. Row nm (RDec (fst v)) (RDec (snd v))) = Inl e"
  shows "additional_row_step t (nm, func, args) =
           Inr (t\<lparr>rows := rows t @ [\<lparr>name = nm, current_year = None, last_year = None,
                                       difference = None, ratio = None\<rparr>]\<rparr>)"
  using assms by (simp add: additional_row_step_def Row_fallback)



lemma get_row_after_append:
  "get_row_by_name
     (t\<lparr>rows := rows t @ [r],
        row_name_index_dict := (row_name_index_dict t)(k := Some (Some (int (length (rows t)))))\<rparr>) k
   = Inr (Some r)"
  by (simp add: get_row_by_name_def dict_get_def list_getitem_def)

text \<open>
  C7 (as amended).  Every round of \<^verbatim>\<open>generate_additional_rows\<close> appends exactly one row
  with the entry's name.  When the entry succeeded, the normalised name (lower case,
  spaces replaced by underscores) is registered at the index of the new row, so that a
  lookup of that name finds the row; when the entry fell back to the all-missing row, the
  lookup map is left as it was.
\<close>

theorem C7_registration:
  "\<exists>t'. additional_row_step t (nm, func, args) = Inr t'
      \<and> rows t' = rows t @ [rows t' ! length (rows t)]
      \<and> name (rows t' ! length (rows t)) = nm
      \<and> (if \<exists>v r. get_values_from_lambda_tuple t func args = Inr v
                  \<and> Row nm (RDec (fst v)) (RDec (snd v)) = Inr r
          then row_name_index_dict t' =
                 (row_name_index_dict t)(index_key nm := Some (Some (int (length (rows t)))))
               \<and> get_row_by_name t' (index_key nm) = Inr (Some (rows t' ! length (rows t)))
          else row_name_index_dict t' = row_name_index_dict t
               \<and> current_year (rows t' ! length (rows t)) = None
               \<and> last_year (rows t' ! length (rows t)) = None)"
proof (cases "bind_err (get_values_from_lambda_tuple t func args)
                (\<lambda>v. Row nm (RDec (fst v)) (RDec (snd v)))")
  case (Inl e)
  then have no: "\<not> (\<exists>v r. get_values_from_lambda_tuple t func args = Inr v
                  \<and> Row nm (RDec (fst v)) (RDec (snd v)) = Inr r)"
    by (auto simp: bind_err_eq_Inl)
  show ?thesis
    unfolding step_fallback [OF Inl] if_not_P [OF no] by simp
next
  case (Inr r)
  then obtain v where v: "get_values_from_lambda_tuple t func args = Inr v"
    and r: "Row nm (RDec (fst v)) (RDec (snd v)) = Inr r"
    by (auto simp: bind_err_eq_Inr)
  then have yes: "\<exists>v r. get_values_from_lambda_tuple t func args = Inr v
                  \<and> Row nm (RDec (fst v)) (RDec (snd v)) = Inr r"
    by blast
  show ?thesis
    unfolding step_success [OF v r] if_P [OF yes] using Row_fields(1) [OF r]
    by (simp add: get_row_after_append)
qed

lemma index_key_current_ratio: "index_key ''Current Ratio'' = ''current_ratio''"
  by (simp add: index_key_def lower_def lower_char_def replace_char_def)

lemma generate_on_new_table:
  "generate_additional_rows Table =
     Inr (Table\<lparr>rows :=
       [\<lparr>name = ''Current Ratio'', current_year = None, last_year = None,
           difference = None, ratio = None\<rparr>,
        \<lparr>name = ''Debt to Equity Ratio'', current_year = None, last_year = None,
           difference = None, ratio = None\<rparr>,
        \<lparr>name = ''Debt Service Coverage Ratio'', current_year = None, last_year = None,
           difference = None, ratio = None\<rparr>]\<rparr>)"
  by (simp add: generate_additional_rows_def ADDITIONAL_ROWS_def additional_row_step_def
        get_values_from_lambda_tuple_def row_attr_def get_row_by_name_def dict_get_def
        Table_def DEFAULT_COLUMN_ROW_INDEX_def Row_fallback)

text \<open>
  The claim C7 as stated fails for an entry that falls back: on a new table the row
  \<^verbatim>\<open>Current Ratio\<close> is appended at index 0, and the lookup map still has \<^verbatim>\<open>None\<close> under
  \<^verbatim>\<open>current_ratio\<close>.
\<close>

theorem C7_fallback_not_registered:
  "\<not> isl (generate_additional_rows Table)
   \<and> name (rows (projr (generate_additional_rows Table)) ! 0) = ''Current Ratio''
   \<and> index_key ''Current Ratio'' = ''current_ratio''
   \<and> row_name_index_dict (projr (generate_additional_rows Table)) ''current_ratio'' = Some None
   \<and> get_row_by_name (projr (generate_additional_rows Table)) ''current_ratio'' = Inr None"
  unfolding generate_on_new_table
  by (simp add: index_key_current_ratio get_row_by_name_def dict_get_def
        Table_def DEFAULT_COLUMN_ROW_INDEX_def)

theorem C7_registration_witness:
  "(\<exists>v r. get_values_from_lambda_tuple
            (add_row Table \<lparr>name = ''Sales'', current_year = None, last_year = None,
                             difference = None, ratio = None\<rparr>)
            (\<lambda>xs. Inr (Finite False 1 0)) [] = Inr v
          \<and> Row ''One'' (RDec (fst v)) (RDec (snd v)) = Inr r)
   \<and> (\<exists>t'. additional_row_step
              (add_row Table \<lparr>name = ''Sales'', current_year = None, last_year = None,
                               difference = None, ratio = None\<rparr>)
              (''One'', \<lambda>xs. Inr (Finite False 1 0), []) = Inr t'
          \<and> get_row_by_name t' (index_key ''One'') = Inr (Some (rows t' ! 1)))"
proof -
  let ?t = "add_row Table \<lparr>name = ''Sales'', current_year = None, last_year = None,
                             difference = None, ratio = None\<rparr>"
  have v: "get_values_from_lambda_tuple ?t (\<lambda>xs. Inr (Finite False 1 0)) []
             = Inr (Finite False 1 0, Finite False 1 0)"
    by (simp add: get_values_from_lambda_tuple_def)
  have r: "Row ''One'' (RDec (Finite False 1 0)) (RDec (Finite False 1 0)) =
             Inr \<lparr>name = ''One'', current_year = Some (Finite False 1 0),
                  last_year = Some (Finite False 1 0), difference = Some (Finite False 0 0),
                  ratio = Some (Finite False 0 0)\<rparr>"
    by (simp add: Row_def safe_decimal_def dec_eval)
  have yes: "\<exists>v r. get_values_from_lambda_tuple ?t (\<lambda>xs. Inr (Finite False 1 0)) [] = Inr v
          \<and> Row ''One'' (RDec (fst v)) (RDec (snd v)) = Inr r"
    using v r by simp
  have len: "length (rows ?t) = 1"
    by (simp add: add_row_def Table_def)
  from C7_registration [of ?t "''One''" "\<lambda>xs. Inr (Finite False 1 0)" "[]"]
  have "\<exists>t'. additional_row_step ?t (''One'', \<lambda>xs. Inr (Finite False 1 0), []) = Inr t'
          \<and> get_row_by_name t' (index_key ''One'') = Inr (Some (rows t' ! 1))"
    unfolding if_P [OF yes] len by auto
  with yes show ?thesis by (rule conjI)
qed

section \<open>Derived rows: values from the formula\<close>





section \<open>The sample statement\<close>

lemma Row_blank:
  "Row nm (RStr []) (RStr []) =
     Inr \<lparr>name = nm, current_year = None, last_year = None, difference = None, ratio = None\<rparr>"
  by (rule Row_fallback)

lemma Row_of_parsed:
  "Decimal_from_str a = Some c \<Longrightarrow> Decimal_from_str b = Some l \<Longrightarrow>
   Row nm (RDec c) (RDec l) = R \<Longrightarrow> Row nm (RStr a) (RStr b) = R"
  by (simp add: Row_def safe_decimal_def)

lemma parse_small:
  "Decimal_from_str (codepoints ''60'') = Some (Finite False 60 0)"
  "Decimal_from_str (codepoints ''30'') = Some (Finite False 30 0)"
  "Decimal_from_str (codepoints ''4'') = Some (Finite False 4 0)"
  "Decimal_from_str (codepoints ''2'') = Some (Finite False 2 0)"
  "Decimal_from_str (codepoints ''10'') = Some (Finite False 10 0)"
  "Decimal_from_str (codepoints ''20'') = Some (Finite False 20 0)"
  "Decimal_from_str (codepoints ''80'') = Some (Finite False 80 0)"
  "Decimal_from_str (codepoints ''500'') = Some (Finite False 500 0)"
  "Decimal_from_str (codepoints ''400'') = Some (Finite False 400 0)"
  "Decimal_from_str (codepoints ''50'') = Some (Finite False 50 0)"
  "Decimal_from_str (codepoints ''40'') = Some (Finite False 40 0)"
  "Decimal_from_str (codepoints ''200'') = Some (Finite False 200 0)"
  "Decimal_from_str (codepoints ''6'') = Some (Finite False 6 0)"
  by (simp_all add: parse_eval)

lemma sample_rows:
  "Row nm (RStr (codepoints ''300'')) (RStr (codepoints ''100'')) =
     Inr \<lparr>name = nm, current_year = Some (Finite False 300 0), last_year = Some (Finite False 100 0),
          difference = Some (Finite False 200 0), ratio = Some (Finite False 2 0)\<rparr>"
  "Row nm (RStr (codepoints ''60'')) (RStr (codepoints ''30'')) =
     Inr \<lparr>name = nm, current_year = Some (Finite False 60 0), last_year = Some (Finite False 30 0),
          difference = Some (Finite False 30 0), ratio = Some (Finite False 1 0)\<rparr>"
  "Row nm (RStr (codepoints ''4'')) (RStr (codepoints ''2'')) =
     Inr \<lparr>name = nm, current_year = Some (Finite False 4 0), last_year = Some (Finite False 2 0),
          difference = Some (Finite False 2 0), ratio = Some (Finite False 1 0)\<rparr>"
  "Row nm (RStr (codepoints ''10'')) (RStr (codepoints ''20'')) =
     Inr \<lparr>name = nm, current_year = Some (Finite False 10 0), last_year = Some (Finite False 20 0),
          difference = Some (Finite True 10 0), ratio = Some (Finite True 5 (- 1))\<rparr>"
  "Row nm (RStr (codepoints ''100'')) (RStr (codepoints ''80'')) =
     Inr \<lparr>name = nm, current_year = Some (Finite False 100 0), last_year = Some (Finite False 80 0),
          difference = Some (Finite False 20 0), ratio = Some (Finite False 25 (- 2))\<rparr>"
  "Row nm (RStr (codepoints ''500'')) (RStr (codepoints ''400'')) =
     Inr \<lparr>name = nm, current_year = Some (Finite False 500 0), last_year = Some (Finite False 400 0),
          difference = Some (Finite False 100 0), ratio = Some (Finite False 25 (- 2))\<rparr>"
  "Row nm (RStr (codepoints ''30'')) (RStr (codepoints ''20'')) =
     Inr \<lparr>name = nm, current_year = Some (Finite False 30 0), last_year = Some (Finite False 20 0),
          difference = Some (Finite False 10 0), ratio = Some (Finite False 5 (- 1))\<rparr>"
  "Row nm (RStr (codepoints ''50'')) (RStr (codepoints ''40'')) =
     Inr \<lparr>name = nm, current_year = Some (Finite False 50 0), last_year = Some (Finite False 40 0),
          difference = Some (Finite False 10 0), ratio = Some (Finite False 25 (- 2))\<rparr>"
  "Row nm (RStr (codepoints ''200'')) (RStr (codepoints ''100'')) =
     Inr \<lparr>name = nm, current_year = Some (Finite False 200 0), last_year = Some (Finite False 100 0),
          difference = Some (Finite False 100 0), ratio = Some (Finite False 1 0)\<rparr>"
  "Row nm (RStr (codepoints ''6'')) (RStr (codepoints ''4'')) =
     Inr \<lparr>name = nm, current_year = Some (Finite False 6 0), last_year = Some (Finite False 4 0),
          difference = Some (Finite False 2 0), ratio = Some (Finite False 5 (- 1))\<rparr>"
  by (simp_all add: Row_def safe_decimal_def parse_small parse_300 parse_100 dec_eval)


lemma table_without_equity_rows:
  "rows table_without_equity =
     [\<lparr>name = ''Income statement'', current_year = None, last_year = None,
         difference = None, ratio = None\<rparr>,
      \<lparr>name = ''Revenue'', current_year = Some (Finite False 300 0), last_year = Some (Finite False 100 0),
         difference = Some (Finite False 200 0), ratio = Some (Finite False 2 0)\<rparr>,
      \<lparr>name = ''EBIT'', current_year = Some (Finite False 60 0), last_year = Some (Finite False 30 0),
         difference = Some (Finite False 30 0), ratio = Some (Finite False 1 0)\<rparr>,
      \<lparr>name = ''Interest costs'', current_year = Some (Finite False 4 0), last_year = Some (Finite False 2 0),
         difference = Some (Finite False 2 0), ratio = Some (Finite False 1 0)\<rparr>,
      \<lparr>name = ''Profit'', current_year = Some (Finite False 10 0), last_year = Some (Finite False 20 0),
         difference = Some (Finite True 10 0), ratio = Some (Finite True 5 (- 1))\<rparr>,
      \<lparr>name = ''Notes'', current_year = None, last_year = None,
         difference = None, ratio = None\<rparr>,
      \<lparr>name = ''Balance sheet'', current_year = None, last_year = None,
         difference = None, ratio = None\<rparr>,
      \<lparr>name = ''Current assets'', current_year = Some (Finite False 100 0), last_year = Some (Finite False 80 0),
         difference = Some (Finite False 20 0), ratio = Some (Finite False 25 (- 2))\<rparr>,
      \<lparr>name = ''Total assets'', current_year = Some (Finite False 500 0), last_year = Some (Finite False 400 0),
         difference = Some (Finite False 100 0), ratio = Some (Finite False 25 (- 2))\<rparr>,
      \<lparr>name = ''Non-current interest-bearing debt'', current_year = Some (Finite False 30 0), last_year = Some (Finite False 20 0),
         difference = Some (Finite False 10 0), ratio = Some (Finite False 5 (- 1))\<rparr>,
      \<lparr>name = ''Current liabilities'', current_year = Some (Finite False 50 0), last_year = Some (Finite False 40 0),
         difference = Some (Finite False 10 0), ratio = Some (Finite False 25 (- 2))\<rparr>,
      \<lparr>name = ''Total liabilities'', current_year = Some (Finite False 200 0), last_year = Some (Finite False 100 0),
         difference = Some (Finite False 100 0), ratio = Some (Finite False 1 0)\<rparr>,
      \<lparr>name = ''Debt service of principal'', current_year = Some (Finite False 6 0), last_year = Some (Finite False 4 0),
         difference = Some (Finite False 2 0), ratio = Some (Finite False 5 (- 1))\<rparr>]"
  and table_without_equity_dict:
  "row_name_index_dict table_without_equity = DEFAULT_COLUMN_ROW_INDEX"
  by (simp_all add: table_without_equity_def sample_records_def sample_rows Row_blank
        add_row_def Table_def)

lemma table_without_equity_lookup:
  "get_row_by_name table_without_equity ''equity'' = Inr None"
  "get_row_by_name table_without_equity ''current_asset'' = Inr (Some (\<lparr>name = ''Current assets'', current_year = Some (Finite False 100 0), last_year = Some (Finite False 80 0),
         difference = Some (Finite False 20 0), ratio = Some (Finite False 25 (- 2))\<rparr>))"
  "get_row_by_name table_without_equity ''current_liability'' = Inr (Some (\<lparr>name = ''Current liabilities'', current_year = Some (Finite False 50 0), last_year = Some (Finite False 40 0),
         difference = Some (Finite False 10 0), ratio = Some (Finite False 25 (- 2))\<rparr>))"
  by (simp_all add: get_row_by_name_def dict_get_def list_getitem_def
        table_without_equity_rows table_without_equity_dict DEFAULT_COLUMN_ROW_INDEX_def)

lemmas table_eval = generate_additional_rows_def ADDITIONAL_ROWS_def additional_row_step_def
  get_values_from_lambda_tuple_def row_attr_def get_row_by_name_def dict_get_def
  list_getitem_def py_truediv_def py_add_def index_key_def lower_def lower_char_def
  replace_char_def DEFAULT_COLUMN_ROW_INDEX_def Row_def safe_decimal_def

lemma generate_without_equity:
  "generate_additional_rows table_without_equity =
     Inr (table_without_equity
       \<lparr>rows := rows table_without_equity @
          [\<lparr>name = ''Current Ratio'', current_year = Some (Finite False 2 0), last_year = Some (Finite False 2 0),
         difference = Some (Finite False 0 0), ratio = Some (Finite False 0 0)\<rparr>,
           \<lparr>name = ''Debt to Equity Ratio'', current_year = Some (Finite False 15 0), last_year = Some (Finite False 10 0),
         difference = Some (Finite False 5 0), ratio = Some (Finite False 5 (- 1))\<rparr>,
           \<lparr>name = ''Debt Service Coverage Ratio'', current_year = Some (Finite False 6 0), last_year = Some (Finite False 5 0),
         difference = Some (Finite False 1 0), ratio = Some (Finite False 2 (- 1))\<rparr>],
        row_name_index_dict :=
          (row_name_index_dict table_without_equity)
            (''current_ratio'' := Some (Some 13), ''debt_to_equity_ratio'' := Some (Some 14),
             ''debt_service_coverage_ratio'' := Some (Some 15))\<rparr>)"
  by (simp add: table_eval table_without_equity_rows table_without_equity_dict dec_eval)


section \<open>Derived rows: the whole loop\<close>

lemma step_shape:
  "\<exists>r d. additional_row_step t (nm, func, args) =
            Inr (t\<lparr>rows := rows t @ [r], row_name_index_dict := d\<rparr>)
          \<and> name r = nm
          \<and> (\<forall>k. k \<noteq> index_key nm \<longrightarrow> d k = row_name_index_dict t k)"
proof (cases "bind_err (get_values_from_lambda_tuple t func args)
                (\<lambda>v. Row nm (RDec (fst v)) (RDec (snd v)))")
  case (Inl e)
  have "t\<lparr>rows := rows t @ [\<lparr>name = nm, current_year = None, last_year = None,
                               difference = None, ratio = None\<rparr>]\<rparr>
        = t\<lparr>rows := rows t @ [\<lparr>name = nm, current_year = None, last_year = None,
                               difference = None, ratio = None\<rparr>],
             row_name_index_dict := row_name_index_dict t\<rparr>"
    by simp
  with step_fallback [OF Inl] show ?thesis
    by (metis row.select_convs(1))
next
  case (Inr r)
  then obtain v where v: "get_values_from_lambda_tuple t func args = Inr v"
    and r: "Row nm (RDec (fst v)) (RDec (snd v)) = Inr r"
    by (auto simp: bind_err_eq_Inr)
  from step_success [OF v r] Row_fields(1) [OF r] show ?thesis
    by (intro exI [of _ r] exI [of _ "(row_name_index_dict t)(index_key nm := Some (Some (int (length (rows t)))))"]) simp
qed

lemma generate_from_shape:
  "\<exists>new d. generate_from es t = Inr (t\<lparr>rows := rows t @ new, row_name_index_dict := d\<rparr>)
            \<and> map name new = map fst es
            \<and> (\<forall>k. k \<notin> index_key ` fst ` set es \<longrightarrow> d k = row_name_index_dict t k)"
proof (induction es arbitrary: t)
  case Nil
  have "t = t\<lparr>rows := rows t @ [], row_name_index_dict := row_name_index_dict t\<rparr>"
    by simp
  then show ?case
    by (intro exI [of _ "[]"] exI [of _ "row_name_index_dict t"]) simp
next
  case (Cons entry es)
  obtain nm func args where entry: "entry = (nm, func, args)"
    by (cases entry)
  from step_shape [of t nm func args] obtain r d where
    step: "additional_row_step t (nm, func, args) =
             Inr (t\<lparr>rows := rows t @ [r], row_name_index_dict := d\<rparr>)"
    and nm: "name r = nm"
    and d: "\<forall>k. k \<noteq> index_key nm \<longrightarrow> d k = row_name_index_dict t k"
    by blast
  let ?t1 = "t\<lparr>rows := rows t @ [r], row_name_index_dict := d\<rparr>"
  from Cons.IH [of ?t1] obtain new d' where
    rest: "generate_from es ?t1 = Inr (?t1\<lparr>rows := rows ?t1 @ new, row_name_index_dict := d'\<rparr>)"
    and names: "map name new = map fst es"
    and d': "\<forall>k. k \<notin> index_key ` fst ` set es \<longrightarrow> d' k = row_name_index_dict ?t1 k"
    by blast
  have "generate_from (entry # es) t =
          Inr (t\<lparr>rows := rows t @ (r # new), row_name_index_dict := d'\<rparr>)"
    using step rest by (simp add: entry)
  moreover have "map name (r # new) = map fst (entry # es)"
    using nm names by (simp add: entry)
  moreover have "\<forall>k. k \<notin> index_key ` fst ` set (entry # es) \<longrightarrow> d' k = row_name_index_dict t k"
    using d d' by (simp add: entry)
  ultimately show ?case by blast
qed

text \<open>
  Whatever the table holds, \<^verbatim>\<open>generate_additional_rows\<close> returns: it appends one row for
  each of the three entries, in their order and under their names, and changes the lookup
  map at most under the three normalised names.
\<close>

lemma generate_additional_rows_shape:
  "\<exists>r1 r2 r3 d. generate_additional_rows t =
       Inr (t\<lparr>rows := rows t @ [r1, r2, r3], row_name_index_dict := d\<rparr>)
     \<and> name r1 = ''Current Ratio'' \<and> name r2 = ''Debt to Equity Ratio''
     \<and> name r3 = ''Debt Service Coverage Ratio''
     \<and> (\<forall>k. k \<notin> {''current_ratio'', ''debt_to_equity_ratio'', ''debt_service_coverage_ratio''}
            \<longrightarrow> d k = row_name_index_dict t k)"
proof -
  from generate_from_shape [of ADDITIONAL_ROWS t] obtain new d where
    g: "generate_from ADDITIONAL_ROWS t = Inr (t\<lparr>rows := rows t @ new, row_name_index_dict := d\<rparr>)"
    and names: "map name new = map fst ADDITIONAL_ROWS"
    and d: "\<forall>k. k \<notin> index_key ` fst ` set ADDITIONAL_ROWS \<longrightarrow> d k = row_name_index_dict t k"
    by blast
  from names obtain r1 r2 r3 where new: "new = [r1, r2, r3]"
    and "name r1 = ''Current Ratio''" and "name r2 = ''Debt to Equity Ratio''"
    and "name r3 = ''Debt Service Coverage Ratio''"
    by (auto simp: ADDITIONAL_ROWS_def map_eq_Cons_conv)
  moreover have "index_key ` fst ` set ADDITIONAL_ROWS =
      {''current_ratio'', ''debt_to_equity_ratio'', ''debt_service_coverage_ratio''}"
    by (simp add: ADDITIONAL_ROWS_def index_key_def lower_def lower_char_def replace_char_def)
  ultimately show ?thesis
    using g d unfolding generate_additional_rows_def by auto
qed

text \<open>
  C3 at a statement of 13 lines.  The equity line (index 13) is absent, so a lookup of
  \<^verbatim>\<open>equity\<close> finds nothing before the derived rows are generated.  The first entry appends
  \<^verbatim>\<open>Current Ratio\<close> at index 13; the second entry then resolves \<^verbatim>\<open>equity\<close> to that row,
  and \<^verbatim>\<open>Debt to Equity Ratio\<close> is computed as 30 / 2 and 20 / 2 instead of being all
  missing.
\<close>

theorem C3_absent_equity_is_aliased:
  "length (rows table_without_equity) = 13
   \<and> get_row_by_name table_without_equity ''equity'' = Inr None
   \<and> \<not> isl (generate_additional_rows table_without_equity)
   \<and> rows (projr (generate_additional_rows table_without_equity)) ! 13 =
       \<lparr>name = ''Current Ratio'', current_year = Some (Finite False 2 0), last_year = Some (Finite False 2 0),
         difference = Some (Finite False 0 0), ratio = Some (Finite False 0 0)\<rparr>
   \<and> get_row_by_name (projr (generate_additional_rows table_without_equity)) ''equity'' =
       Inr (Some (\<lparr>name = ''Current Ratio'', current_year = Some (Finite False 2 0), last_year = Some (Finite False 2 0),
         difference = Some (Finite False 0 0), ratio = Some (Finite False 0 0)\<rparr>))
   \<and> rows (projr (generate_additional_rows table_without_equity)) ! 14 =
       \<lparr>name = ''Debt to Equity Ratio'', current_year = Some (Finite False 15 0), last_year = Some (Finite False 10 0),
         difference = Some (Finite False 5 0), ratio = Some (Finite False 5 (- 1))\<rparr>"
  unfolding generate_without_equity
  by (simp add: table_without_equity_lookup table_without_equity_rows table_without_equity_dict
        get_row_by_name_def dict_get_def list_getitem_def DEFAULT_COLUMN_ROW_INDEX_def)

section \<open>A whole run\<close>

lemma read_rows_dict:
  "read_rows recs t = Inr t' \<Longrightarrow> row_name_index_dict t' = row_name_index_dict t"
  by (induction recs arbitrary: t) (auto simp: bind_err_eq_Inr add_row_def)

text \<open>
  When the line at index 1, the revenue line, is read with a missing difference, the
  narrative report stops at its first paragraph: \<^verbatim>\<open>row.difference >= 0\<close> compares \<^verbatim>\<open>None\<close>
  with an integer.  The tabular output has been written by then.
\<close>

lemma missing_revenue_difference_aborts:
  assumes read: "read_rows recs Table = Inr t"
    and len: "1 < length (rows t)"
    and missing: "difference (rows t ! 1) = None"
  shows "raised (analyse_file recs) = Some TypeError"
    and "txt_sink (analyse_file recs) = Some []"
    and "csv_sink (analyse_file recs) \<noteq> None"
proof -
  from generate_additional_rows_shape [of t] obtain r1 r2 r3 d where
    g: "generate_additional_rows t =
          Inr (t\<lparr>rows := rows t @ [r1, r2, r3], row_name_index_dict := d\<rparr>)"
    and d: "\<forall>k. k \<notin> {''current_ratio'', ''debt_to_equity_ratio'', ''debt_service_coverage_ratio''}
            \<longrightarrow> d k = row_name_index_dict t k"
    by (elim exE conjE) (rule that)
  let ?t' = "t\<lparr>rows := rows t @ [r1, r2, r3], row_name_index_dict := d\<rparr>"
  have other: "''revenue'' \<notin> {''current_ratio'', ''debt_to_equity_ratio'', ''debt_service_coverage_ratio''}"
    by simp
  have "d ''revenue'' = row_name_index_dict t ''revenue''"
    by (rule d [rule_format, OF other])
  then have "d ''revenue'' = DEFAULT_COLUMN_ROW_INDEX ''revenue''"
    using read_rows_dict [OF read] by (simp add: Table_def)
  then have idx: "d ''revenue'' = Some (Some 1)"
    by (simp add: DEFAULT_COLUMN_ROW_INDEX_def)
  have lookup: "get_row_by_name ?t' ''revenue'' = Inr (Some (rows t ! 1))"
    using len by (simp add: get_row_by_name_def dict_get_def idx list_getitem_def nth_append)
  have "change_type (rows t ! 1) = Inl TypeError"
    using missing by (simp add: change_type_def)
  with lookup have report: "write_text_report ?t' = ([], Some TypeError)"
    by (simp add: write_text_report_def REPORT_NAMES_def)
  show "raised (analyse_file recs) = Some TypeError"
    and "txt_sink (analyse_file recs) = Some []"
    and "csv_sink (analyse_file recs) \<noteq> None"
    by (simp_all add: analyse_file_def read g report)
qed

lemma more_sample_rows:
  "Row nm (RStr (codepoints ''n/a'')) (RStr (codepoints ''100'')) =
     Inr \<lparr>name = nm, current_year = None, last_year = Some (Finite False 100 0),
          difference = None, ratio = None\<rparr>"
  "Row nm (RStr (codepoints ''150'')) (RStr (codepoints ''100'')) =
     Inr \<lparr>name = nm, current_year = Some (Finite False 150 0), last_year = Some (Finite False 100 0),
          difference = Some (Finite False 50 0), ratio = Some (Finite False 5 (- 1))\<rparr>"
  "Row nm (RStr (codepoints ''25'')) (RStr (codepoints ''20'')) =
     Inr \<lparr>name = nm, current_year = Some (Finite False 25 0), last_year = Some (Finite False 20 0),
          difference = Some (Finite False 5 0), ratio = Some (Finite False 25 (- 2))\<rparr>"
proof -
  have p: "Decimal_from_str (codepoints ''150'') = Some (Finite False 150 0)"
    "Decimal_from_str (codepoints ''25'') = Some (Finite False 25 0)"
    by (simp_all add: parse_eval)
  show "Row nm (RStr (codepoints ''n/a'')) (RStr (codepoints ''100'')) =
     Inr \<lparr>name = nm, current_year = None, last_year = Some (Finite False 100 0),
          difference = None, ratio = None\<rparr>"
    using Row_unparseable [of "RStr (codepoints ''n/a'')" "RStr (codepoints ''100'')" nm]
    by (simp add: safe_decimal_def parse_na parse_100)
  show "Row nm (RStr (codepoints ''150'')) (RStr (codepoints ''100'')) =
     Inr \<lparr>name = nm, current_year = Some (Finite False 150 0), last_year = Some (Finite False 100 0),
          difference = Some (Finite False 50 0), ratio = Some (Finite False 5 (- 1))\<rparr>"
    by (simp add: Row_def safe_decimal_def p parse_100 dec_eval)
  show "Row nm (RStr (codepoints ''25'')) (RStr (codepoints ''20'')) =
     Inr \<lparr>name = nm, current_year = Some (Finite False 25 0), last_year = Some (Finite False 20 0),
          difference = Some (Finite False 5 0), ratio = Some (Finite False 25 (- 2))\<rparr>"
    by (simp add: Row_def safe_decimal_def p parse_small dec_eval)
qed

lemma read_bad_revenue:
  "read_rows records_bad_revenue Table =
     Inr \<lparr>rows =
     [\<lparr>name = ''Income statement'', current_year = None, last_year = None,
         difference = None, ratio = None\<rparr>,
      \<lparr>name = ''Revenue'', current_year = None, last_year = Some (Finite False 100 0),
         difference = None, ratio = None\<rparr>,
      \<lparr>name = ''EBIT'', current_year = Some (Finite False 60 0), last_year = Some (Finite False 30 0),
         difference = Some (Finite False 30 0), ratio = Some (Finite False 1 0)\<rparr>,
      \<lparr>name = ''Interest costs'', current_year = Some (Finite False 4 0), last_year = Some (Finite False 2 0),
         difference = Some (Finite False 2 0), ratio = Some (Finite False 1 0)\<rparr>,
      \<lparr>name = ''Profit'', current_year = Some (Finite False 10 0), last_year = Some (Finite False 20 0),
         difference = Some (Finite True 10 0), ratio = Some (Finite True 5 (- 1))\<rparr>,
      \<lparr>name = ''Notes'', current_year = None, last_year = None,
         difference = None, ratio = None\<rparr>,
      \<lparr>name = ''Balance sheet'', current_year = None, last_year = None,
         difference = None, ratio = None\<rparr>,
      \<lparr>name = ''Current assets'', current_year = Some (Finite False 100 0), last_year = Some (Finite False 80 0),
         difference = Some (Finite False 20 0), ratio = Some (Finite False 25 (- 2))\<rparr>,
      \<lparr>name = ''Total assets'', current_year = Some (Finite False 500 0), last_year = Some (Finite False 400 0),
         difference = Some (Finite False 100 0), ratio = Some (Finite False 25 (- 2))\<rparr>,
      \<lparr>name = ''Non-current interest-bearing debt'', current_year = Some (Finite False 30 0), last_year = Some (Finite False 20 0),
         difference = Some (Finite False 10 0), ratio = Some (Finite False 5 (- 1))\<rparr>,
      \<lparr>name = ''Current liabilities'', current_year = Some (Finite False 50 0), last_year = Some (Finite False 40 0),
         difference = Some (Finite False 10 0), ratio = Some (Finite False 25 (- 2))\<rparr>,
      \<lparr>name = ''Total liabilities'', current_year = Some (Finite False 200 0), last_year = Some (Finite False 100 0),
         difference = Some (Finite False 100 0), ratio = Some (Finite False 1 0)\<rparr>,
      \<lparr>name = ''Debt service of principal'', current_year = Some (Finite False 6 0), last_year = Some (Finite False 4 0),
         difference = Some (Finite False 2 0), ratio = Some (Finite False 5 (- 1))\<rparr>,
      \<lparr>name = ''Equity'', current_year = Some (Finite False 150 0), last_year = Some (Finite False 100 0),
         difference = Some (Finite False 50 0), ratio = Some (Finite False 5 (- 1))\<rparr>,
      \<lparr>name = ''Cash flow statement'', current_year = None, last_year = None,
         difference = None, ratio = None\<rparr>,
      \<lparr>name = ''Cash flow'', current_year = Some (Finite False 25 0), last_year = Some (Finite False 20 0),
         difference = Some (Finite False 5 0), ratio = Some (Finite False 25 (- 2))\<rparr>],
          row_name_index_dict = DEFAULT_COLUMN_ROW_INDEX\<rparr>"
  by (simp add: records_bad_revenue_def sample_records_def sample_rows more_sample_rows
        Row_blank add_row_def Table_def)

text \<open>
  C4 at the sample statement with one unparseable cell.  Every line is read and the three
  derived rows are appended, the tabular output is written, and then the narrative report
  raises TypeError at the revenue line: the run does not complete and the narrative
  output stays empty.
\<close>

theorem C4_unparseable_cell_aborts_run:
  "raised (analyse_file records_bad_revenue) = Some TypeError
   \<and> txt_sink (analyse_file records_bad_revenue) = Some []
   \<and> csv_sink (analyse_file records_bad_revenue) \<noteq> None"
  using missing_revenue_difference_aborts [OF read_bad_revenue]
  by simp

section \<open>Formatting\<close>

lemma is_digit_digit_char: "is_digit (digit_char d)"
proof -
  have "d mod 10 < length ''0123456789''" by simp
  then have "''0123456789'' ! (d mod 10) \<in> set ''0123456789''"
    by (rule nth_mem)
  then show ?thesis
    by (simp only: is_digit_def digit_char_def)
qed

lemma str_nat_digits: "str_nat n \<noteq> [] \<and> list_all is_digit (str_nat n)"
proof (induction n rule: str_nat.induct)
  case (1 n)
  show ?case
  proof (cases "n < 10")
    case True
    then show ?thesis
      by (subst (1 2) str_nat.simps) (simp add: is_digit_digit_char)
  next
    case False
    with "1.IH" show ?thesis
      by (subst (1 2) str_nat.simps) (simp add: is_digit_digit_char)
  qed
qed

lemma is_digit_zero: "is_digit (CHR ''0'')"
  by (simp add: is_digit_def)

lemma split_fixed2_shape:
  "length (snd (split_fixed2 q)) = 2 \<and> list_all is_digit (snd (split_fixed2 q))
   \<and> fst (split_fixed2 q) \<noteq> [] \<and> list_all is_digit (fst (split_fixed2 q))"
proof -
  from str_nat_digits [of q] have ne: "str_nat q \<noteq> []" and dg: "list_all is_digit (str_nat q)"
    by simp_all
  show ?thesis
  proof (cases "length (str_nat q) < 2")
    case True
    with ne have "length (str_nat q) = 1"
      by (cases "str_nat q") simp_all
    with dg show ?thesis
      by (simp add: split_fixed2_def Let_def is_digit_zero)
  next
    case False
    moreover have "list_all is_digit (take k (str_nat q))" and "list_all is_digit (drop k (str_nat q))" for k
      using dg by (auto simp: list_all_iff dest: in_set_takeD in_set_dropD)
    ultimately show ?thesis
      by (simp add: split_fixed2_def Let_def is_digit_zero)
  qed
qed

lemma is_digit_not_dot: "is_digit c \<Longrightarrow> c \<noteq> CHR ''.''"
  by (auto simp: is_digit_def)

lemma is_digit_word: "is_digit c \<Longrightarrow> is_word_char c"
  by (auto simp: is_digit_def is_word_char_def)

lemma insert_thousands_sep_no_sep: "insert_thousands_sep [] ds = ds"
proof (induction "[] :: string" ds rule: insert_thousands_sep.induct)
  case (1 ds)
  then show ?case
    by (subst insert_thousands_sep.simps) simp
qed

lemma insert_thousands_sep_set:
  "set (insert_thousands_sep sep ds) \<subseteq> set sep \<union> set ds"
proof (induction sep ds rule: insert_thousands_sep.induct)
  case (1 sep ds)
  show ?case
  proof (cases "length ds \<le> 3")
    case True
    then show ?thesis by (subst insert_thousands_sep.simps) simp
  next
    case False
    with "1.IH" have "set (insert_thousands_sep sep (take (length ds - 3) ds)) \<subseteq> set sep \<union> set ds"
      by (auto dest: in_set_takeD)
    with False show ?thesis
      by (subst insert_thousands_sep.simps) (auto dest: in_set_dropD)
  qed
qed

section \<open>The substitution on a formatted number\<close>

lemma no_match_at_end: "match_here tail_dot_rgx prev [] = None"
  by (simp add: match_here_def tail_dot_rgx_def)

lemma no_match_without_dot: "c \<noteq> CHR ''.'' \<Longrightarrow> match_here tail_dot_rgx prev (c # cs) = None"
  by (simp add: match_here_def tail_dot_rgx_def in_class_def)

lemma sub_group2_end: "sub_group2 tail_dot_rgx prev [] = []"
  by (subst sub_group2.simps) (simp add: no_match_at_end)

lemma sub_group2_copy:
  "c \<noteq> CHR ''.'' \<Longrightarrow>
   sub_group2 tail_dot_rgx prev (c # cs) = c # sub_group2 tail_dot_rgx (Some c) cs"
  by (subst sub_group2.simps) (simp add: no_match_without_dot)

lemma sub_group2_prefix:
  "CHR ''.'' \<notin> set pre \<Longrightarrow>
   \<exists>prev'. sub_group2 tail_dot_rgx prev (pre @ rest) = pre @ sub_group2 tail_dot_rgx prev' rest"
proof (induction pre arbitrary: prev)
  case Nil
  then show ?case by auto
next
  case (Cons c pre)
  then have "c \<noteq> CHR ''.''" and "CHR ''.'' \<notin> set pre" by auto
  from Cons.IH [OF this(2), of "Some c"] sub_group2_copy [OF this(1), of prev "pre @ rest"]
  show ?case by auto
qed

lemma match_two_zeros:
  "match_here tail_dot_rgx prev [CHR ''.'', CHR ''0'', CHR ''0'']
   = Some ((\<lambda>n. None)(1 := Some ''.''), Some (CHR ''0''), [])"
  by (simp add: match_here_def tail_dot_rgx_def in_class_def at_boundary_def is_word_char_def)

lemma match_one_zero:
  "is_digit d1 \<Longrightarrow> d1 \<noteq> CHR ''0'' \<Longrightarrow>
   match_here tail_dot_rgx prev [CHR ''.'', d1, CHR ''0'']
   = Some ((\<lambda>n. None)(2 := Some [CHR ''.'', d1]), Some (CHR ''0''), [])"
  by (simp add: match_here_def tail_dot_rgx_def in_class_def at_boundary_def is_word_char_def
        is_digit_not_dot)

lemma match_no_zero:
  "is_digit d1 \<Longrightarrow> is_digit d2 \<Longrightarrow> d2 \<noteq> CHR ''0'' \<Longrightarrow>
   match_here tail_dot_rgx prev [CHR ''.'', d1, d2] = None"
  by (simp add: match_here_def tail_dot_rgx_def in_class_def at_boundary_def is_digit_word
        is_digit_not_dot is_digit_zero)

lemma sub_group2_fraction:
  assumes "is_digit d1" and "is_digit d2"
  shows "sub_group2 tail_dot_rgx prev [CHR ''.'', d1, d2] = spec_strip_fraction [d1, d2]"
proof (cases "d2 = CHR ''0''")
  case False
  with assms show ?thesis
    by (subst sub_group2.simps)
       (simp add: match_no_zero sub_group2_copy sub_group2_end is_digit_not_dot
          spec_strip_fraction_def)
next
  case True
  show ?thesis
  proof (cases "d1 = CHR ''0''")
    case True
    with \<open>d2 = CHR ''0''\<close> show ?thesis
      by (subst sub_group2.simps)
         (simp add: match_two_zeros sub_group2_end spec_strip_fraction_def)
  next
    case False
    with \<open>d2 = CHR ''0''\<close> assms show ?thesis
      by (subst sub_group2.simps)
         (simp add: match_one_zero sub_group2_end spec_strip_fraction_def)
  qed
qed

lemma remove_tail_dot_zeros_fixed:
  assumes "CHR ''.'' \<notin> set pre" and "length fp = 2" and "list_all is_digit fp"
  shows "remove_tail_dot_zeros (pre @ ''.'' @ fp) = pre @ spec_strip_fraction fp"
proof -
  from assms(2,3) obtain d1 d2 where fp: "fp = [d1, d2]" and "is_digit d1" and "is_digit d2"
    by (cases fp; cases "tl fp") auto
  from sub_group2_prefix [OF assms(1), of None "''.'' @ fp"] obtain prev' where
    "sub_group2 tail_dot_rgx None (pre @ ''.'' @ fp) = pre @ sub_group2 tail_dot_rgx prev' (''.'' @ fp)"
    by blast
  with sub_group2_fraction [OF \<open>is_digit d1\<close> \<open>is_digit d2\<close>, of prev'] show ?thesis
    by (simp add: remove_tail_dot_zeros_def fp)
qed


lemma format_fixed2_within_limit:
  assumes "\<not> (c \<noteq> 0 \<and> - 2 \<le> e \<and> MAX_PREC + 1 < int (ndigits c) + (e + 2))"
  shows "format_fixed2 sep False (Finite s c e) =
           Inr ((if s then ''-'' else []) @ insert_thousands_sep sep (fst (split_fixed2 (rescale_coeff c e (- 2))))
                @ ''.'' @ snd (split_fixed2 (rescale_coeff c e (- 2))))"
  using assms by (auto simp: format_fixed2_def sign_of_def Let_def)

lemma format_fixed2_beyond_limit:
  assumes "c \<noteq> 0 \<and> - 2 \<le> e \<and> MAX_PREC + 1 < int (ndigits c) + (e + 2)"
  shows "format_fixed2 sep False (Finite s c e) = Inl ValueError"
  using assms by (simp add: format_fixed2_def Let_def)

lemma no_dot_before_point:
  assumes "sep = '','' \<or> sep = []"
  shows "CHR ''.'' \<notin> set ((if s then ''-'' else []) @ insert_thousands_sep sep (fst (split_fixed2 q)))"
proof -
  have "CHR ''.'' \<notin> set (fst (split_fixed2 q))"
    using split_fixed2_shape [of q] by (auto simp: list_all_iff dest: is_digit_not_dot)
  moreover have "CHR ''.'' \<notin> set sep"
    using assms by auto
  ultimately have "CHR ''.'' \<notin> set (insert_thousands_sep sep (fst (split_fixed2 q)))"
    using insert_thousands_sep_set [of sep "fst (split_fixed2 q)"] by blast
  then show ?thesis by simp
qed

lemma format_decimal_number:
  "format_decimal (Some (Finite s c e)) False with_commas =
     (if c \<noteq> 0 \<and> - 2 \<le> e \<and> MAX_PREC + 1 < int (ndigits c) + (e + 2) then []
      else (if s then ''-'' else [])
           @ insert_thousands_sep (if with_commas then '','' else [])
               (fst (split_fixed2 (rescale_coeff c e (- 2))))
           @ spec_strip_fraction (snd (split_fixed2 (rescale_coeff c e (- 2)))))"
proof (cases "c \<noteq> 0 \<and> - 2 \<le> e \<and> MAX_PREC + 1 < int (ndigits c) + (e + 2)")
  case True
  then show ?thesis
    by (simp add: format_decimal_def format_fixed2_beyond_limit)
next
  case False
  let ?sep = "if with_commas then '','' else []"
  let ?q = "rescale_coeff c e (- 2)"
  have sep: "?sep = '','' \<or> ?sep = []" by simp
  from split_fixed2_shape [of ?q] have "length (snd (split_fixed2 ?q)) = 2"
    and "list_all is_digit (snd (split_fixed2 ?q))"
    by simp_all
  from remove_tail_dot_zeros_fixed [OF no_dot_before_point [OF sep, of s ?q] this]
  have "remove_tail_dot_zeros
          (((if s then ''-'' else []) @ insert_thousands_sep ?sep (fst (split_fixed2 ?q)))
           @ ''.'' @ snd (split_fixed2 ?q))
        = ((if s then ''-'' else []) @ insert_thousands_sep ?sep (fst (split_fixed2 ?q)))
          @ spec_strip_fraction (snd (split_fixed2 ?q))" .
  then have "format_decimal (Some (Finite s c e)) False with_commas
        = (if s then ''-'' else []) @ insert_thousands_sep ?sep (fst (split_fixed2 ?q))
          @ spec_strip_fraction (snd (split_fixed2 ?q))"
    unfolding format_decimal_def option.case if_False format_fixed2_within_limit [OF False]
      sum.case append_assoc .
  then show ?thesis
    unfolding if_not_P [OF False] .
qed

lemmas format_eval = rescale_coeff_def split_fixed2_def str_nat.simps digit_char_def
  insert_thousands_sep.simps spec_strip_fraction_def MAX_PREC_def ndigits.simps

lemma parse_examples:
  "Decimal_from_str (codepoints ''1200.50'') = Some (Finite False 120050 (- 2))"
  "Decimal_from_str (codepoints ''1200.00'') = Some (Finite False 120000 (- 2))"
  "Decimal_from_str (codepoints ''1200.10'') = Some (Finite False 120010 (- 2))"
  "Decimal_from_str (codepoints ''1E+999999999999999999'') = Some (Finite False 1 999999999999999999)"
  by (simp_all add: parse_eval)

text \<open>
  C9 (as amended).  Non-percent formatting of a number renders it as fixed-point with two
  fractional digits: the sign, the integer digits grouped in threes by commas unless
  grouping is disabled, and the fraction with its trailing zeros stripped, the decimal
  point going only when no fractional digit remains; sign, integer digits and separators
  are those of the unstripped rendering.  The exception is a non-zero number whose
  coefficient, padded with zeros down to two fractional digits, would have more than
  \<open>MAX_PREC + 1\<close> digits: there the formatter raises and the result is the empty string.
  In particular 1200.50, 1200.00 and 1200.10 give \<^verbatim>\<open>1,200.5\<close>, \<^verbatim>\<open>1,200\<close> and \<^verbatim>\<open>1,200.1\<close>.
\<close>

theorem C9_fixed_point_stripped:
  "format_decimal (Some (Finite s c e)) False with_commas =
     (if c \<noteq> 0 \<and> - 2 \<le> e \<and> MAX_PREC + 1 < int (ndigits c) + (e + 2) then []
      else (if s then ''-'' else [])
           @ insert_thousands_sep (if with_commas then '','' else [])
               (fst (split_fixed2 (rescale_coeff c e (- 2))))
           @ spec_strip_fraction (snd (split_fixed2 (rescale_coeff c e (- 2)))))
   \<and> (c \<noteq> 0 \<and> - 2 \<le> e \<and> MAX_PREC + 1 < int (ndigits c) + (e + 2) \<or>
        format_fixed2 (if with_commas then '','' else []) False (Finite s c e) =
          Inr ((if s then ''-'' else [])
               @ insert_thousands_sep (if with_commas then '','' else [])
                   (fst (split_fixed2 (rescale_coeff c e (- 2))))
               @ ''.'' @ snd (split_fixed2 (rescale_coeff c e (- 2)))))
   \<and> length (snd (split_fixed2 q)) = 2 \<and> list_all is_digit (snd (split_fixed2 q))
   \<and> fst (split_fixed2 q) \<noteq> [] \<and> list_all is_digit (fst (split_fixed2 q))
   \<and> insert_thousands_sep [] ds = ds
   \<and> format_decimal (Decimal_from_str (codepoints ''1200.50'')) False True = ''1,200.5''
   \<and> format_decimal (Decimal_from_str (codepoints ''1200.00'')) False True = ''1,200''
   \<and> format_decimal (Decimal_from_str (codepoints ''1200.10'')) False True = ''1,200.1''"
proof -
  have ex1: "format_decimal (Decimal_from_str (codepoints ''1200.50'')) False True = ''1,200.5''"
    unfolding parse_examples format_decimal_number by (simp add: format_eval)
  have ex2: "format_decimal (Decimal_from_str (codepoints ''1200.00'')) False True = ''1,200''"
    unfolding parse_examples format_decimal_number by (simp add: format_eval)
  have ex3: "format_decimal (Decimal_from_str (codepoints ''1200.10'')) False True = ''1,200.1''"
    unfolding parse_examples format_decimal_number by (simp add: format_eval)
  have fmt: "c \<noteq> 0 \<and> - 2 \<le> e \<and> MAX_PREC + 1 < int (ndigits c) + (e + 2) \<or>
        format_fixed2 (if with_commas then '','' else []) False (Finite s c e) =
          Inr ((if s then ''-'' else [])
               @ insert_thousands_sep (if with_commas then '','' else [])
                   (fst (split_fixed2 (rescale_coeff c e (- 2))))
               @ ''.'' @ snd (split_fixed2 (rescale_coeff c e (- 2))))"
    using format_fixed2_within_limit [of c e "if with_commas then '','' else []" s] by blast
  from format_decimal_number [of s c e with_commas] fmt split_fixed2_shape [of q]
    insert_thousands_sep_no_sep [of ds] ex1 ex2 ex3
  show ?thesis by (intro conjI) simp_all
qed

text \<open>
  The claim C9 as stated fails for a number beyond the formatter's limit: \<^verbatim>\<open>1E+999999999999999999\<close>
  parses, its formatting raises ValueError, and \<^verbatim>\<open>format_decimal\<close> returns the empty
  string instead of a fixed-point rendering.
\<close>

theorem C9_beyond_limit_is_empty:
  "Decimal_from_str (codepoints ''1E+999999999999999999'') = Some (Finite False 1 999999999999999999)
   \<and> format_fixed2 '','' False (Finite False 1 999999999999999999) = Inl ValueError
   \<and> format_decimal (Decimal_from_str (codepoints ''1E+999999999999999999'')) False True = []"
  by (simp add: parse_examples format_decimal_def format_fixed2_def MAX_PREC_def ndigits.simps)

theorem C9_fixed_point_stripped_witness:
  "\<not> (120050 \<noteq> (0::nat) \<and> - 2 \<le> (- 2 :: int) \<and> MAX_PREC + 1 < int (ndigits 120050) + (- 2 + 2))
   \<and> format_decimal (Some (Finite False 120050 (- 2))) False True = ''1,200.5''
   \<and> format_decimal (Some (Finite True 120000 (- 2))) False False = ''-1200''"
proof -
  have within: "\<not> (120050 \<noteq> (0::nat) \<and> - 2 \<le> (- 2 :: int) \<and> MAX_PREC + 1 < int (ndigits 120050) + (- 2 + 2))"
    by (simp add: MAX_PREC_def ndigits.simps)
  have a: "format_decimal (Some (Finite False 120050 (- 2))) False True = ''1,200.5''"
    using C9_fixed_point_stripped [of False 120050 "- 2" True]
    by (simp add: format_eval)
  have b: "format_decimal (Some (Finite True 120000 (- 2))) False False = ''-1200''"
    using C9_fixed_point_stripped [of True 120000 "- 2" False]
    by (simp add: format_eval)
  from within a b show ?thesis by (intro conjI)
qed

end
